theory Spec2Isabelle
  imports Complex_Main
begin

section \<open>The circuit IR read by the Verilog netlister\<close>

text \<open>
  The netlister of \<^verbatim>\<open>hdl21/netlist/verilog.py\<close> reads protobuf messages
  (\<^verbatim>\<open>protodefs.Module\<close>, \<^verbatim>\<open>Instance\<close>, \<^verbatim>\<open>Port\<close>, \<^verbatim>\<open>Signal\<close>,
  \<^verbatim>\<open>Parameter\<close>, \<^verbatim>\<open>Connection\<close>, \<^verbatim>\<open>Slice\<close>, \<^verbatim>\<open>Concat\<close>). Each message is a record
  or a datatype holding the fields the file reads, a repeated field is a list, and a
  map field is the list of its entries in iteration order (keys distinct), looked up
  with \<^const>\<open>map_of\<close>.
\<close>

record Signal =
  sig_name :: string
  sig_width :: int

text \<open>
  \<^verbatim>\<open>Port.Direction\<close> is a protobuf enum: the four names the file looks up with
  \<^verbatim>\<open>Direction.Value\<close>, and any other number the field may hold.
\<close>

datatype Direction = INPUT | OUTPUT | INOUT | NONE | UNRECOGNIZED int

text \<open>
  A \<^verbatim>\<open>Port\<close> message holds a direction, or its field \<^verbatim>\<open>direction\<close> was never set.
  The file reads \<^verbatim>\<open>pport.direction\<close> and tests no presence; protobuf reads an enum
  field that was never set as the value 0 of the enum. The enum is declared in the schema
  of the repository (\<^verbatim>\<open>circuit.proto\<close>, which is not among the sources), in the order
  of the table of \<^verbatim>\<open>format_port_decl\<close>: \<^verbatim>\<open>INPUT\<close> is its first name, the value 0.
\<close>

record Port =
  port_direction_field :: "Direction option"
  port_signal :: Signal

definition port_direction :: "Port \<Rightarrow> Direction" where
  "port_direction pport =
     (case port_direction_field pport of None \<Rightarrow> INPUT | Some d \<Rightarrow> d)"

text \<open>
  \<^verbatim>\<open>Parameter\<close> carries the oneof \<^verbatim>\<open>value\<close>: one of the fields \<^verbatim>\<open>integer\<close>,
  \<^verbatim>\<open>double\<close>, \<^verbatim>\<open>string\<close>, a field of another name, or no field at all.
\<close>

datatype Parameter =
  PInteger int | PDouble real | PString string | POther string | PUnset

fun WhichOneof_value :: "Parameter \<Rightarrow> string option" where
  "WhichOneof_value (PInteger _) = Some ''integer''"
| "WhichOneof_value (PDouble _) = Some ''double''"
| "WhichOneof_value (PString _) = Some ''string''"
| "WhichOneof_value (POther k) = Some k"
| "WhichOneof_value PUnset = None"

record Slice =
  slice_signal :: string
  slice_top :: int
  slice_bot :: int

text \<open>
  \<^verbatim>\<open>Connection\<close> is the oneof of a signal, a slice and a concatenation; the
  specification adds a literal, carried here as its text in the target syntax.
\<close>

datatype Connection =
  Conn_sig Signal | Conn_slice Slice | Conn_concat Concat | Conn_literal string
and Concat = Concat (parts: "Connection list")

datatype Reference = Local string | External string

record Instance =
  inst_name :: string
  inst_module :: Reference
  inst_parameters :: "(string \<times> Parameter) list"
  inst_connections :: "(string \<times> Connection) list"

record Module =
  mod_name :: string
  mod_ports :: "Port list"
  mod_signals :: "Signal list"
  mod_instances :: "Instance list"
  mod_default_parameters :: "(string \<times> Parameter) list"

record ExternalModule =
  ext_name :: string
  ext_ports :: "Port list"

section \<open>Errors\<close>

text \<open>
  One constructor for each \<^verbatim>\<open>raise\<close> of the file, holding the values its message
  interpolates:
  \<^item> \<open>DoublyDefined n\<close>: \<^verbatim>\<open>RuntimeError(f"Module {module_name} doubly defined")\<close>;
  \<^item> \<open>UnconnectedPort p i\<close>: \<^verbatim>\<open>RuntimeError(f"Unconnected Port {pname} on {pinst.name}")\<close>;
  \<^item> \<open>ValueError\<close>: the bare \<^verbatim>\<open>raise ValueError\<close> of \<^verbatim>\<open>format_param_type\<close>, which is how
    the class raises the unsupported-parameter-type error of the specification;
  \<^item> \<open>UnknownPortDirection d\<close>: \<^verbatim>\<open>RuntimeError\<close> "Invalid Verilog netlisting for
    unknown Port direction";
  \<^item> \<open>UndirectedPort p\<close>: \<^verbatim>\<open>RuntimeError\<close> "Invalid Verilog netlisting for undirected
    Port";
  \<^item> \<open>UnresolvedReference r\<close>: the failure of the reference resolver;
  \<^item> \<open>BaseError m\<close>: an error raised inside a method of the base class.
\<close>

datatype error =
  DoublyDefined string
| UnconnectedPort string string
| ValueError
| UnknownPortDirection Direction
| UndirectedPort Port
| UnresolvedReference Reference
| BaseError string

section \<open>Strings of Python\<close>

text \<open>\<^verbatim>\<open>str(n)\<close> of an integer, as an f-string renders it: decimal, with a minus sign.\<close>

definition digit_char :: "nat \<Rightarrow> char" where
  "digit_char d = ''0123456789'' ! d"

function str_nat :: "nat \<Rightarrow> string" where
  "str_nat n = (if n < 10 then [digit_char n] else str_nat (n div 10) @ [digit_char (n mod 10)])"
  by pat_completeness auto
termination
  by (relation "measure (\<lambda>n. n)") auto

declare str_nat.simps [simp del]

definition str_int :: "int \<Rightarrow> string" where
  "str_int i = (if i < 0 then CHR ''-'' # str_nat (nat (- i)) else str_nat (nat i))"

text \<open>\<^verbatim>\<open>sep.join(xs)\<close>.\<close>

fun join :: "string \<Rightarrow> string list \<Rightarrow> string" where
  "join sep [] = []"
| "join sep [x] = x"
| "join sep (x # y # ys) = x @ sep @ join sep (y # ys)"

section \<open>The formatters of the class\<close>

text \<open>\<^verbatim>\<open>format_param_type\<close>: the Verilog type of a parameter, by the kind of its value.\<close>

definition format_param_type :: "Parameter \<Rightarrow> error + string" where
  "format_param_type pparam =
     (let ptype = WhichOneof_value pparam in
      if ptype = Some ''integer'' then Inr ''longint''
      else if ptype = Some ''double'' then Inr ''real''
      else if ptype = Some ''string'' then Inr ''string''
      else Inl ValueError)"

text \<open>
  The methods \<^verbatim>\<open>get_module_name\<close>, \<^verbatim>\<open>get_param_default\<close> and \<^verbatim>\<open>get_param_value\<close>
  are inherited from the base class \<^verbatim>\<open>Netlister\<close> of \<^verbatim>\<open>hdl21/netlist/base.py\<close>,
  which this file imports. They are parameters of the model: a record of functions, passed
  where the source passes \<^verbatim>\<open>self\<close> or \<^verbatim>\<open>cls\<close>. The two parameter methods may raise.
\<close>

record base =
  get_module_name :: "Module \<Rightarrow> string"
  get_param_default :: "Parameter \<Rightarrow> error + string option"
  get_param_value :: "Parameter \<Rightarrow> error + string"

text \<open>
  Modelled from the spec: \<open>get_param_value\<close> and \<open>get_param_default\<close> are missing from
  the source (methods of the base class). The specification, sections 3, 4.4, 6 and 7: the
  value of a parameter is of exactly one of the kinds integer, floating-point and string;
  \<open>get_param_value\<close> returns the literal of a value; \<open>get_param_default\<close> returns the
  literal of the default of a parameter, derived from its value, or nothing when the
  parameter has no default; a value that is of none of the recognized kinds is the
  unsupported-parameter-type error. The syntax of a literal is left to the target format:
  \<open>lit\<close> renders a value of the three kinds.
\<close>

definition spec_get_param_value :: "(Parameter \<Rightarrow> string) \<Rightarrow> Parameter \<Rightarrow> error + string" where
  "spec_get_param_value lit pparam =
     (if WhichOneof_value pparam \<in> {Some ''integer'', Some ''double'', Some ''string''}
      then Inr (lit pparam) else Inl ValueError)"

definition spec_get_param_default ::
  "(Parameter \<Rightarrow> string) \<Rightarrow> Parameter \<Rightarrow> error + string option" where
  "spec_get_param_default lit pparam =
     (case WhichOneof_value pparam of
        None \<Rightarrow> Inr None
      | Some _ \<Rightarrow>
          (case spec_get_param_value lit pparam of
             Inl e \<Rightarrow> Inl e
           | Inr v \<Rightarrow> Inr (Some v)))"

text \<open>
  The base class of the specification, for a canonical naming \<open>canon\<close> of modules and a
  literal syntax \<open>lit\<close>.
\<close>

definition spec_base :: "(Module \<Rightarrow> string) \<Rightarrow> (Parameter \<Rightarrow> string) \<Rightarrow> base" where
  "spec_base canon lit =
     \<lparr>get_module_name = canon,
      get_param_default = spec_get_param_default lit,
      get_param_value = spec_get_param_value lit\<rparr>"

text \<open>
  \<^verbatim>\<open>format_param_decl\<close>. The call of \<^verbatim>\<open>format_param_type\<close> is commented out in the
  source, so the model has none.
\<close>

definition format_param_decl :: "base \<Rightarrow> string \<Rightarrow> Parameter \<Rightarrow> error + string" where
  "format_param_decl cls name param =
     (let rv = ''parameter '' @ name in
      case get_param_default cls param of
        Inl e \<Rightarrow> Inl e
      | Inr default' \<Rightarrow>
          (case default' of
             Some d \<Rightarrow> Inr (rv @ '' = '' @ d)
           | None \<Rightarrow> Inr rv))"

text \<open>\<^verbatim>\<open>format_signal_decl\<close>, \<^verbatim>\<open>format_signal_ref\<close>, \<^verbatim>\<open>format_port_ref\<close>.\<close>

definition format_signal_decl :: "Signal \<Rightarrow> string" where
  "format_signal_decl psig =
     (let rv = ''wire'';
          rv = (if sig_width psig > 1
                then rv @ '' ['' @ str_int (sig_width psig - 1) @ '':0]'' else rv)
      in rv @ '' '' @ sig_name psig)"

definition format_signal_ref :: "Signal \<Rightarrow> string" where
  "format_signal_ref psig = sig_name psig"

definition format_port_ref :: "Port \<Rightarrow> string" where
  "format_port_ref pport = format_signal_ref (port_signal pport)"

text \<open>\<^verbatim>\<open>format_port_decl\<close>, with its table from directions to keywords.\<close>

fun port_type_to_str :: "Direction \<Rightarrow> string option" where
  "port_type_to_str INPUT = Some ''input''"
| "port_type_to_str OUTPUT = Some ''output''"
| "port_type_to_str INOUT = Some ''inout''"
| "port_type_to_str NONE = Some ''NO_DIRECTION''"
| "port_type_to_str (UNRECOGNIZED _) = None"

definition format_port_decl :: "Port \<Rightarrow> error + string" where
  "format_port_decl pport =
     (case port_type_to_str (port_direction pport) of
        None \<Rightarrow> Inl (UnknownPortDirection (port_direction pport))
      | Some dir \<Rightarrow>
          if dir = ''NO_DIRECTION'' then Inl (UndirectedPort pport)
          else Inr (dir @ '' '' @ format_signal_decl (port_signal pport)))"

text \<open>\<^verbatim>\<open>format_signal_slice\<close>.\<close>

definition format_signal_slice :: "Slice \<Rightarrow> string" where
  "format_signal_slice pslice =
     (if slice_top pslice = slice_bot pslice
      then slice_signal pslice @ ''['' @ str_int (slice_top pslice) @ '']''
      else slice_signal pslice @ ''['' @ str_int (slice_top pslice) @ '':''
             @ str_int (slice_bot pslice) @ '']'')"

text \<open>
  \<^verbatim>\<open>format_concat\<close> renders its parts with \<^verbatim>\<open>self.format_connection\<close>, a method of the
  base class, which in turn renders a concatenation with \<^verbatim>\<open>format_concat\<close>.

  Modelled from the spec: \<open>format_connection\<close> is missing from the source (it is a method
  of the base class). The specification, section 4.3: a signal reference renders as the
  signal's plain name, a slice as \<^verbatim>\<open>format_signal_slice\<close> does, a concatenation as
  \<^verbatim>\<open>format_concat\<close> does, a literal by the literal syntax of the target format; the
  formatter is pure and handles every variant.
\<close>

fun format_connection :: "Connection \<Rightarrow> string"
  and format_concat :: "Concat \<Rightarrow> string"
  and format_parts :: "Connection list \<Rightarrow> string list" where
  "format_connection (Conn_sig psig) = format_signal_ref psig"
| "format_connection (Conn_slice pslice) = format_signal_slice pslice"
| "format_connection (Conn_concat pconc) = format_concat pconc"
| "format_connection (Conn_literal text) = text"
| "format_concat (Concat ps) = ''{'' @ join '', '' (format_parts ps) @ ''}''"
| "format_parts [] = []"
| "format_parts (part # ps) = format_connection part # format_parts ps"

section \<open>The writer\<close>

text \<open>
  The state of a netlister object: the fields \<^verbatim>\<open>module_names\<close> and \<^verbatim>\<open>pmodules\<close> that
  \<^verbatim>\<open>write_module_definition\<close> updates, \<^verbatim>\<open>indent\<close>, and the text written so far. The
  text is the list of the lines written, each with the indentation depth it was written
  at. \<open>ext_modules\<close> holds the external modules given to the pass.
\<close>

record netlister =
  dest :: "(int \<times> string) list"
  indent :: int
  module_names :: "string set"
  pmodules :: "string \<Rightarrow> Module option"
  ext_modules :: "string \<Rightarrow> ExternalModule option"

text \<open>
  Modelled from the spec: \<open>writeln\<close> is missing from the source (a method of the base
  class). The specification, section 2: the output writer tracks the current indent depth
  and writes one line at the current indent.
\<close>

definition writeln :: "string \<Rightarrow> netlister \<Rightarrow> netlister" where
  "writeln s self = self\<lparr>dest := dest self @ [(indent self, s)]\<rparr>"

text \<open>
  Modelled from the spec: \<open>resolve_reference\<close> is missing from the source (a method of
  the base class). The specification, sections 2, 4.1 and 4.2: given the module reference
  of an instance it returns the target, a locally defined module (found in the map that
  \<^verbatim>\<open>write_module_definition\<close> registers modules in) or an externally declared module,
  with its canonical name and its declared ports; an unknown reference is a fatal error.
\<close>

datatype ModuleLike = IsModule Module | IsExternal ExternalModule

fun ports :: "ModuleLike \<Rightarrow> Port list" where
  "ports (IsModule m) = mod_ports m"
| "ports (IsExternal e) = ext_ports e"

record ResolvedModule =
  rm_module :: ModuleLike
  rm_module_name :: string

definition resolve_reference :: "base \<Rightarrow> netlister \<Rightarrow> Reference \<Rightarrow> error + ResolvedModule" where
  "resolve_reference B self ref =
     (case ref of
        Local n \<Rightarrow>
          (case pmodules self n of
             None \<Rightarrow> Inl (UnresolvedReference ref)
           | Some m \<Rightarrow> Inr \<lparr>rm_module = IsModule m, rm_module_name = get_module_name B m\<rparr>)
      | External n \<Rightarrow>
          (case ext_modules self n of
             None \<Rightarrow> Inl (UnresolvedReference ref)
           | Some e \<Rightarrow> Inr \<lparr>rm_module = IsExternal e, rm_module_name = ext_name e\<rparr>))"

text \<open>
  A method that writes returns the error it raised, if any, and the netlister as it is
  then: what was written before a \<^verbatim>\<open>raise\<close> stays written. \<open>and_then r k\<close> runs the
  statements \<open>k\<close> after the statements that ended as \<open>r\<close>: only if they raised nothing.
\<close>

type_synonym outcome = "(error + unit) \<times> netlister"

definition and_then :: "outcome \<Rightarrow> (netlister \<Rightarrow> outcome) \<Rightarrow> outcome" where
  "and_then r k = (case r of (Inl e, self) \<Rightarrow> (Inl e, self) | (Inr _, self) \<Rightarrow> k self)"

definition returns :: "netlister \<Rightarrow> outcome" where
  "returns self = (Inr (), self)"

subsection \<open>\<^verbatim>\<open>write_instance\<close>\<close>

text \<open>
  The method is written in the parts its source has: the parameter values (lines 106 to
  115), the connections (lines 120 to 137), and the method that runs them in order.

  The loop over \<^verbatim>\<open>pinst.parameters.items()\<close>.
\<close>

fun write_param_values :: "base \<Rightarrow> (string \<times> Parameter) list \<Rightarrow> netlister \<Rightarrow> outcome" where
  "write_param_values B [] self = returns self"
| "write_param_values B ((pname, pparam) # rest) self =
     (case get_param_value B pparam of
        Inl e \<Rightarrow> (Inl e, self)
      | Inr pval \<Rightarrow> write_param_values B rest (writeln (pname @ ''='' @ pval @ '' '') self))"

text \<open>\<^verbatim>\<open>if pinst.parameters: ... else: ...\<close>\<close>

definition write_instance_parameters :: "base \<Rightarrow> Instance \<Rightarrow> netlister \<Rightarrow> outcome" where
  "write_instance_parameters B pinst self =
     (if inst_parameters pinst \<noteq> [] then
        (let self = writeln ''#( '' self;
             self = self\<lparr>indent := indent self + 1\<rparr>
         in and_then (write_param_values B (inst_parameters pinst) self)
              (\<lambda>self. returns (writeln '') '' (self\<lparr>indent := indent self - 1\<rparr>))))
      else returns (writeln ''// No parameters '' self))"

text \<open>
  The loop over \<^verbatim>\<open>enumerate(port_order)\<close>: \<open>len\<close> is \<^verbatim>\<open>len(port_order)\<close>, \<open>num\<close> the
  index of the first name of the list.
\<close>

fun write_connections :: "Instance \<Rightarrow> int \<Rightarrow> int \<Rightarrow> string list \<Rightarrow> netlister \<Rightarrow> outcome" where
  "write_connections pinst len num [] self = returns self"
| "write_connections pinst len num (pname # rest) self =
     (case map_of (inst_connections pinst) pname of
        None \<Rightarrow> (Inl (UnconnectedPort pname (inst_name pinst)), self)
      | Some pconn \<Rightarrow>
          (let comma = (if num = len - 1 then [] else '','') in
           write_connections pinst len (num + 1) rest
             (writeln (''.'' @ pname @ ''('' @ format_connection pconn @ '')'' @ comma @ '' '') self)))"

text \<open>\<^verbatim>\<open>if module.ports: ... else: ...\<close>\<close>

definition write_instance_connections :: "Instance \<Rightarrow> ModuleLike \<Rightarrow> netlister \<Rightarrow> outcome" where
  "write_instance_connections pinst module' self =
     (if ports module' \<noteq> [] then
        (let self = writeln ''( '' self;
             self = self\<lparr>indent := indent self + 1\<rparr>;
             port_order = map (\<lambda>pport. sig_name (port_signal pport)) (ports module')
         in and_then
              (write_connections pinst (int (length port_order)) 0 port_order self)
              (\<lambda>self. returns (writeln ''); '' (self\<lparr>indent := indent self - 1\<rparr>))))
      else returns (writeln ''// No ports '' self))"

definition write_instance :: "base \<Rightarrow> Instance \<Rightarrow> netlister \<Rightarrow> outcome" where
  "write_instance B pinst self =
     (case resolve_reference B self (inst_module pinst) of
        Inl e \<Rightarrow> (Inl e, self)
      | Inr target \<Rightarrow>
          (let module = rm_module target;
               module_name = rm_module_name target;
               self = writeln module_name self
           in
           and_then (write_instance_parameters B pinst self)
             (\<lambda>self.
                let self = writeln (inst_name pinst) self in
                and_then (write_instance_connections pinst module self)
                  (\<lambda>self. returns (writeln [] self)))))"

subsection \<open>\<^verbatim>\<open>write_module_definition\<close>\<close>

text \<open>
  The method is written in the parts its source has: the parameters (lines 49 to 59), the
  ports (lines 61 to 71), the rest up to \<^verbatim>\<open>endmodule\<close> (lines 73 to 94), and the method
  that checks and registers the name, writes the header and runs them in order.

  The loop over \<^verbatim>\<open>enumerate(module.default_parameters)\<close>.
\<close>

fun write_param_decls ::
  "base \<Rightarrow> int \<Rightarrow> int \<Rightarrow> (string \<times> Parameter) list \<Rightarrow> netlister \<Rightarrow> outcome" where
  "write_param_decls B len num [] self = returns self"
| "write_param_decls B len num ((name, pparam) # rest) self =
     (let comma = (if num = len - 1 then [] else '','') in
      case format_param_decl B name pparam of
        Inl e \<Rightarrow> (Inl e, self)
      | Inr decl \<Rightarrow> write_param_decls B len (num + 1) rest (writeln (decl @ comma) self))"

text \<open>\<^verbatim>\<open>if module.default_parameters: ... else: ...\<close>\<close>

definition write_module_parameters :: "base \<Rightarrow> Module \<Rightarrow> netlister \<Rightarrow> outcome" where
  "write_module_parameters B module' self =
     (if mod_default_parameters module' \<noteq> [] then
        (let self = writeln ''#( '' self;
             self = self\<lparr>indent := indent self + 1\<rparr>
         in and_then
              (write_param_decls B (int (length (mod_default_parameters module'))) 0
                 (mod_default_parameters module') self)
              (\<lambda>self. returns (writeln '') '' (self\<lparr>indent := indent self - 1\<rparr>))))
      else returns (writeln ''// No parameters '' self))"

text \<open>The loop over \<^verbatim>\<open>enumerate(module.ports)\<close>.\<close>

fun write_port_decls :: "int \<Rightarrow> int \<Rightarrow> Port list \<Rightarrow> netlister \<Rightarrow> outcome" where
  "write_port_decls len num [] self = returns self"
| "write_port_decls len num (pport # rest) self =
     (let comma = (if num = len - 1 then [] else '','') in
      case format_port_decl pport of
        Inl e \<Rightarrow> (Inl e, self)
      | Inr decl \<Rightarrow> write_port_decls len (num + 1) rest (writeln (decl @ comma) self))"

text \<open>\<^verbatim>\<open>if module.ports: ... else: ...\<close>\<close>

definition write_module_ports :: "Module \<Rightarrow> netlister \<Rightarrow> outcome" where
  "write_module_ports module' self =
     (if mod_ports module' \<noteq> [] then
        (let self = writeln ''( '' self;
             self = self\<lparr>indent := indent self + 1\<rparr>
         in and_then
              (write_port_decls (int (length (mod_ports module'))) 0 (mod_ports module') self)
              (\<lambda>self. returns (writeln ''); '' (self\<lparr>indent := indent self - 1\<rparr>))))
      else returns (writeln ''// No ports '' self))"

text \<open>The loops over \<^verbatim>\<open>module.signals\<close> and \<^verbatim>\<open>module.instances\<close>.\<close>

fun write_signal_decls :: "Signal list \<Rightarrow> netlister \<Rightarrow> netlister" where
  "write_signal_decls [] self = self"
| "write_signal_decls (psig # rest) self =
     write_signal_decls rest (writeln (format_signal_decl psig @ ''; '') self)"

fun write_instances :: "base \<Rightarrow> Instance list \<Rightarrow> netlister \<Rightarrow> outcome" where
  "write_instances B [] self = returns self"
| "write_instances B (pinst # rest) self =
     and_then (write_instance B pinst self) (write_instances B rest)"

text \<open>From the blank line that ends the header to the line of \<^verbatim>\<open>endmodule\<close>.\<close>

definition write_module_body :: "base \<Rightarrow> Module \<Rightarrow> string \<Rightarrow> netlister \<Rightarrow> outcome" where
  "write_module_body B module' module_name self =
     (let self = writeln [] self;
          self = self\<lparr>indent := indent self + 1\<rparr>;
          self = (if mod_signals module' \<noteq> [] then
                    write_signal_decls (mod_signals module')
                      (writeln ''// Signal Declarations'' self)
                  else writeln ''// No Signal Declarations'' self)
      in
      and_then
        (if mod_instances module' \<noteq> [] then
           (let self = writeln [] self;
                self = writeln ''// Instance Declarations'' self
            in write_instances B (mod_instances module') self)
         else returns (writeln ''// No Instances'' self))
        (\<lambda>self.
           let self = self\<lparr>indent := indent self - 1\<rparr>;
               self = writeln [] self;
               self = writeln (''endmodule // '' @ module_name @ '' ''
                        @ [CHR 0x0A, CHR 0x0A]) self
           in returns self))"

definition write_module_definition :: "base \<Rightarrow> Module \<Rightarrow> netlister \<Rightarrow> outcome" where
  "write_module_definition B module' self =
     (let module_name = get_module_name B module' in
      if module_name \<in> module_names self then (Inl (DoublyDefined module_name), self)
      else
        (let self = self\<lparr>module_names := insert module_name (module_names self)\<rparr>;
             self = self\<lparr>pmodules := (pmodules self)(mod_name module' \<mapsto> module')\<rparr>;
             self = writeln (''module '' @ module_name) self
         in
         and_then (write_module_parameters B module' self)
           (\<lambda>self.
              and_then (write_module_ports module' self)
                (\<lambda>self. write_module_body B module' module_name self))))"

subsection \<open>A whole pass\<close>


section \<open>Vocabulary of the statements\<close>

text \<open>
  Entry \<open>k\<close> of a block of \<open>n\<close> entries is followed by a comma unless it is the last;
  \<open>separated\<close> is a block of entries so punctuated.
\<close>

definition comma_after :: "nat \<Rightarrow> nat \<Rightarrow> string" where
  "comma_after n k = (if Suc k = n then [] else '','')"

definition separated :: "string list \<Rightarrow> string list" where
  "separated entries =
     map (\<lambda>k. entries ! k @ comma_after (length entries) k) [0..<length entries]"

text \<open>Lines written at one depth; a named binding of a connection; a parameter override.\<close>

definition at_depth :: "int \<Rightarrow> string list \<Rightarrow> (int \<times> string) list" where
  "at_depth i ls = map (Pair i) ls"

definition binding :: "string \<Rightarrow> Connection \<Rightarrow> string" where
  "binding pname pconn = ''.'' @ pname @ ''('' @ format_connection pconn @ '')''"

definition override :: "string \<Rightarrow> string \<Rightarrow> string" where
  "override pname pval = pname @ ''='' @ pval @ '' ''"

text \<open>
  The names of the ports of a target, in declared order, and the blocks of an instance and
  of a module: a marker line when there is no entry, else the entries one level deeper
  between an opening and a closing line.
\<close>

definition port_order :: "ModuleLike \<Rightarrow> string list" where
  "port_order m = map (\<lambda>pport. sig_name (port_signal pport)) (ports m)"

definition block ::
  "int \<Rightarrow> string \<Rightarrow> string \<Rightarrow> string \<Rightarrow> string list \<Rightarrow> (int \<times> string) list" where
  "block i opening closing marker entries =
     (if entries = [] then [(i, marker)]
      else (i, opening) # at_depth (i + 1) entries @ [(i, closing)])"

definition override_block :: "int \<Rightarrow> string list \<Rightarrow> string list \<Rightarrow> (int \<times> string) list" where
  "override_block i pnames pvals =
     block i ''#( '' '') '' ''// No parameters '' (map2 override pnames pvals)"

definition connection_block ::
  "int \<Rightarrow> string list \<Rightarrow> Connection list \<Rightarrow> (int \<times> string) list" where
  "connection_block i pnames pconns =
     block i ''( '' ''); '' ''// No ports ''
       (map (\<lambda>l. l @ '' '') (separated (map2 binding pnames pconns)))"

definition param_decl_block :: "int \<Rightarrow> string list \<Rightarrow> (int \<times> string) list" where
  "param_decl_block i decls = block i ''#( '' '') '' ''// No parameters '' (separated decls)"

definition port_decl_block :: "int \<Rightarrow> string list \<Rightarrow> (int \<times> string) list" where
  "port_decl_block i decls = block i ''( '' ''); '' ''// No ports '' (separated decls)"

text \<open>
  The text a call wrote: what it added to the lines written before it. \<open>prepend\<close> puts
  lines before the text of a netlister, \<open>shift\<close> before the text an outcome holds.
\<close>

definition emitted :: "netlister \<Rightarrow> outcome \<Rightarrow> (int \<times> string) list" where
  "emitted self r = drop (length (dest self)) (dest (snd r))"

definition prepend :: "(int \<times> string) list \<Rightarrow> netlister \<Rightarrow> netlister" where
  "prepend d self = self\<lparr>dest := d @ dest self\<rparr>"

definition shift :: "(int \<times> string) list \<Rightarrow> outcome \<Rightarrow> outcome" where
  "shift d r = (fst r, prepend d (snd r))"

text \<open>
  A base class to run the model on: the base class of the specification, where the name of
  a module is its canonical name and an integer or a string is its own literal (the
  samples hold no floating-point value).
\<close>

definition sample_literal :: "Parameter \<Rightarrow> string" where
  "sample_literal p = (case p of PInteger i \<Rightarrow> str_int i | PString s \<Rightarrow> s | _ \<Rightarrow> [])"

definition sample_base :: base where
  "sample_base = spec_base mod_name sample_literal"

definition fresh :: netlister where
  "fresh = \<lparr>dest = [], indent = 0, module_names = {}, pmodules = Map.empty,
            ext_modules = Map.empty\<rparr>"

text \<open>
  A circuit to run the model on: a module \<^verbatim>\<open>inv\<close> with two ports and two default
  parameters, an instance \<^verbatim>\<open>u1\<close> of it whose connections are listed against the order
  of the ports, and the netlister in which \<^verbatim>\<open>inv\<close> is registered.
\<close>

definition sample_leaf :: Module where
  "sample_leaf =
     \<lparr>mod_name = ''inv'',
      mod_ports =
        [\<lparr>port_direction_field = Some INPUT, port_signal = \<lparr>sig_name = ''a'', sig_width = 1\<rparr>\<rparr>,
         \<lparr>port_direction_field = Some OUTPUT, port_signal = \<lparr>sig_name = ''y'', sig_width = 4\<rparr>\<rparr>],
      mod_signals = [],
      mod_instances = [],
      mod_default_parameters = [(''w'', PInteger 4), (''tag'', PUnset)]\<rparr>"

definition sample_inst :: Instance where
  "sample_inst =
     \<lparr>inst_name = ''u1'',
      inst_module = Local ''inv'',
      inst_parameters = [(''w'', PInteger 8), (''k'', PString ''s'')],
      inst_connections =
        [(''y'', Conn_sig \<lparr>sig_name = ''z'', sig_width = 4\<rparr>),
         (''a'', Conn_slice \<lparr>slice_signal = ''x'', slice_top = 0, slice_bot = 0\<rparr>)]\<rparr>"

definition sample_registered :: netlister where
  "sample_registered = fresh\<lparr>module_names := {''inv''}, pmodules := [''inv'' \<mapsto> sample_leaf]\<rparr>"


section \<open>Strings\<close>

lemma str_nat_digit: "n < 10 \<Longrightarrow> str_nat n = [digit_char n]"
  by (simp add: str_nat.simps)

lemma str_int_digit: "0 \<le> i \<Longrightarrow> i < 10 \<Longrightarrow> str_int i = [digit_char (nat i)]"
  by (simp add: str_int_def str_nat_digit)

lemma sample_base_simps:
  "get_module_name sample_base m = mod_name m"
  "get_param_default sample_base PUnset = Inr None"
  "get_param_default sample_base (PInteger i) = Inr (Some (str_int i))"
  "get_param_default sample_base (PString s) = Inr (Some s)"
  "k \<notin> {''integer'', ''double'', ''string''} \<Longrightarrow>
     get_param_default sample_base (POther k) = Inl ValueError"
  "get_param_value sample_base (PInteger i) = Inr (str_int i)"
  "get_param_value sample_base (PString s) = Inr s"
  "get_param_value sample_base PUnset = Inl ValueError"
  by (simp_all add: sample_base_def spec_base_def spec_get_param_default_def
      spec_get_param_value_def sample_literal_def)

lemma join_append:
  "xs \<noteq> [] \<Longrightarrow> ys \<noteq> [] \<Longrightarrow> join sep (xs @ ys) = join sep xs @ sep @ join sep ys"
  by (induction sep xs rule: join.induct) (auto simp: neq_Nil_conv)

section \<open>The pure formatters\<close>

text \<open>
  Claim C6. For every Slice connection: when its high index equals its low index the
  formatter renders the single-bit index expression \<^verbatim>\<open>signal[high]\<close>; when high is
  greater than low it renders the range \<^verbatim>\<open>signal[high:low]\<close>; and no validity check is
  made: an inverted slice, high below low, is rendered as a range like any other.
\<close>

theorem format_signal_slice_cases:
  "(slice_top p = slice_bot p \<longrightarrow>
      format_signal_slice p = slice_signal p @ ''['' @ str_int (slice_top p) @ '']'')
   \<and> (slice_top p > slice_bot p \<longrightarrow>
      format_signal_slice p =
        slice_signal p @ ''['' @ str_int (slice_top p) @ '':'' @ str_int (slice_bot p) @ '']'')
   \<and> (slice_top p < slice_bot p \<longrightarrow>
      format_signal_slice p =
        slice_signal p @ ''['' @ str_int (slice_top p) @ '':'' @ str_int (slice_bot p) @ '']'')"
  by (simp add: format_signal_slice_def)

theorem format_signal_slice_cases_witness:
  "format_signal_slice \<lparr>slice_signal = ''a'', slice_top = 3, slice_bot = 3\<rparr> = ''a[3]''
   \<and> format_signal_slice \<lparr>slice_signal = ''a'', slice_top = 3, slice_bot = 2\<rparr> = ''a[3:2]''
   \<and> format_signal_slice \<lparr>slice_signal = ''a'', slice_top = 0, slice_bot = 5\<rparr> = ''a[0:5]''"
  using format_signal_slice_cases [of "\<lparr>slice_signal = ''a'', slice_top = 3, slice_bot = 3\<rparr>"]
    format_signal_slice_cases [of "\<lparr>slice_signal = ''a'', slice_top = 3, slice_bot = 2\<rparr>"]
    format_signal_slice_cases [of "\<lparr>slice_signal = ''a'', slice_top = 0, slice_bot = 5\<rparr>"]
  by (simp add: str_int_digit digit_char_def)

lemma format_parts_map: "format_parts ps = map format_connection ps"
  by (induction ps) simp_all

text \<open>
  Claim C7. For every Concatenation connection the formatter renders each part with the
  connection formatter (which renders a nested concatenation with this formatter again),
  joins the rendered parts with a comma and a blank, and wraps the result in braces. The
  parts keep their order: the text of a concatenation of the parts \<open>ps\<close> followed by the
  parts \<open>qs\<close> is the joined text of \<open>ps\<close>, the separator, then the joined text of \<open>qs\<close>.
\<close>

theorem format_concat_in_order:
  "format_concat (Concat ps) = ''{'' @ join '', '' (map format_connection ps) @ ''}''
   \<and> format_connection (Conn_concat (Concat ps)) = format_concat (Concat ps)
   \<and> (ps \<noteq> [] \<and> qs \<noteq> [] \<longrightarrow>
        format_concat (Concat (ps @ qs)) =
          ''{'' @ join '', '' (map format_connection ps) @ '', ''
            @ join '', '' (map format_connection qs) @ ''}'')"
  by (simp add: format_parts_map join_append)

theorem format_concat_in_order_witness:
  "format_concat (Concat
     ([Conn_slice \<lparr>slice_signal = ''A'', slice_top = 3, slice_bot = 2\<rparr>]
      @ [Conn_sig \<lparr>sig_name = ''B'', sig_width = 1\<rparr>,
         Conn_concat (Concat [Conn_slice \<lparr>slice_signal = ''C'', slice_top = 0, slice_bot = 0\<rparr>,
                              Conn_literal ''D''])]))
   = ''{A[3:2], B, {C[0], D}}''"
  using format_concat_in_order
    [of "[Conn_slice \<lparr>slice_signal = ''A'', slice_top = 3, slice_bot = 2\<rparr>]"
        "[Conn_sig \<lparr>sig_name = ''B'', sig_width = 1\<rparr>,
          Conn_concat (Concat [Conn_slice \<lparr>slice_signal = ''C'', slice_top = 0, slice_bot = 0\<rparr>,
                               Conn_literal ''D''])]"]
  by (simp add: format_signal_ref_def format_signal_slice_def str_int_digit digit_char_def)

text \<open>
  Claim C8, as the specification states it, fails for the unset direction: a Port whose
  field \<^verbatim>\<open>direction\<close> was never set reads as the direction of value 0, \<^verbatim>\<open>INPUT\<close>, and
  its declaration is formatted with the keyword \<^verbatim>\<open>input\<close>; nothing is raised.
\<close>

theorem format_port_decl_unset_counterexample:
  "port_direction_field
       \<lparr>port_direction_field = None, port_signal = \<lparr>sig_name = ''a'', sig_width = 1\<rparr>\<rparr> = None
   \<and> format_port_decl
       \<lparr>port_direction_field = None, port_signal = \<lparr>sig_name = ''a'', sig_width = 1\<rparr>\<rparr>
     = Inr ''input wire a''"
  by (simp add: format_port_decl_def port_direction_def format_signal_decl_def)

text \<open>
  Claim C8, amended. For every Port whose direction is \<^verbatim>\<open>NONE\<close>, formatting its
  declaration raises the undirected-port error, and for every Port whose direction is a
  value that the table of directions does not hold it raises the unknown-direction error:
  a declaration is returned only for the directions input, output and inout. A direction
  that was never set is not detected: it reads as \<^verbatim>\<open>INPUT\<close> and the declaration is
  formatted with the keyword \<^verbatim>\<open>input\<close>.
\<close>

theorem format_port_decl_directions:
  "(port_direction p = NONE \<longrightarrow> format_port_decl p = Inl (UndirectedPort p))
   \<and> (\<forall>n. port_direction p = UNRECOGNIZED n \<longrightarrow>
         format_port_decl p = Inl (UnknownPortDirection (UNRECOGNIZED n)))
   \<and> ((\<exists>s. format_port_decl p = Inr s) \<longrightarrow> port_direction p \<in> {INPUT, OUTPUT, INOUT})
   \<and> (port_direction_field p = None \<longrightarrow>
         format_port_decl p = Inr (''input '' @ format_signal_decl (port_signal p)))"
  by (cases "port_direction p")
    (auto simp: format_port_decl_def port_direction_def split: option.splits)

theorem format_port_decl_directions_witness:
  "format_port_decl
       \<lparr>port_direction_field = Some NONE, port_signal = \<lparr>sig_name = ''a'', sig_width = 1\<rparr>\<rparr>
     = Inl (UndirectedPort
         \<lparr>port_direction_field = Some NONE, port_signal = \<lparr>sig_name = ''a'', sig_width = 1\<rparr>\<rparr>)
   \<and> format_port_decl
       \<lparr>port_direction_field = Some (UNRECOGNIZED 7),
        port_signal = \<lparr>sig_name = ''a'', sig_width = 1\<rparr>\<rparr>
     = Inl (UnknownPortDirection (UNRECOGNIZED 7))
   \<and> format_port_decl
       \<lparr>port_direction_field = Some OUTPUT, port_signal = \<lparr>sig_name = ''y'', sig_width = 4\<rparr>\<rparr>
     = Inr ''output wire [3:0] y''
   \<and> port_direction
       \<lparr>port_direction_field = Some OUTPUT, port_signal = \<lparr>sig_name = ''y'', sig_width = 4\<rparr>\<rparr>
     \<in> {INPUT, OUTPUT, INOUT}
   \<and> format_port_decl
       \<lparr>port_direction_field = None, port_signal = \<lparr>sig_name = ''a'', sig_width = 1\<rparr>\<rparr>
     = Inr ''input wire a''"
proof -
  let ?none = "\<lparr>port_direction_field = Some NONE,
    port_signal = \<lparr>sig_name = ''a'', sig_width = 1\<rparr>\<rparr>"
  let ?odd = "\<lparr>port_direction_field = Some (UNRECOGNIZED 7),
    port_signal = \<lparr>sig_name = ''a'', sig_width = 1\<rparr>\<rparr>"
  let ?out = "\<lparr>port_direction_field = Some OUTPUT,
    port_signal = \<lparr>sig_name = ''y'', sig_width = 4\<rparr>\<rparr>"
  let ?unset = "\<lparr>port_direction_field = None,
    port_signal = \<lparr>sig_name = ''a'', sig_width = 1\<rparr>\<rparr>"
  have out: "format_port_decl ?out = Inr ''output wire [3:0] y''"
    by (simp add: format_port_decl_def port_direction_def format_signal_decl_def
        str_int_digit digit_char_def)
  show ?thesis
    using format_port_decl_directions [of ?none] format_port_decl_directions [of ?odd]
      format_port_decl_directions [of ?out] format_port_decl_directions [of ?unset] out
    by (simp add: port_direction_def format_signal_decl_def)
qed

text \<open>
  What \<^verbatim>\<open>format_param_decl\<close> itself does: it checks no kind and raises nothing of its
  own; it raises what \<^verbatim>\<open>get_param_default\<close> raises, and returns the declaration
  otherwise, for every base class.
\<close>

lemma format_param_decl_Inl:
  "format_param_decl B name p = Inl e \<longleftrightarrow> get_param_default B p = Inl e"
  by (cases "get_param_default B p")
    (simp_all add: format_param_decl_def Let_def split: option.splits)

lemma format_param_decl_Inr:
  "get_param_default B p = Inr d \<Longrightarrow>
   format_param_decl B name p =
     Inr (''parameter '' @ name @ (case d of None \<Rightarrow> [] | Some v \<Rightarrow> '' = '' @ v))"
  by (simp add: format_param_decl_def split: option.splits)

lemma format_param_decl_no_value:
  "WhichOneof_value p = None \<Longrightarrow>
   format_param_decl (spec_base canon lit) name p = Inr (''parameter '' @ name)"
  by (simp add: format_param_decl_def spec_base_def spec_get_param_default_def)

text \<open>
  Claim C1. For every Parameter that holds a value whose kind is none of integer, double
  and string, formatting its declaration fails with the unsupported-parameter-type error
  (the \<^verbatim>\<open>ValueError\<close> of the class) and returns no declaration, with the base class of the
  specification, whatever its naming of modules and its syntax of literals. The same
  error is what \<^verbatim>\<open>format_param_type\<close> raises for that Parameter.
\<close>

theorem format_param_decl_unsupported:
  "WhichOneof_value p = Some k \<Longrightarrow> k \<notin> {''integer'', ''double'', ''string''} \<Longrightarrow>
   format_param_decl (spec_base canon lit) name p = Inl ValueError
   \<and> format_param_type p = Inl ValueError"
  by (simp add: format_param_decl_def format_param_type_def spec_base_def
      spec_get_param_default_def spec_get_param_value_def)

theorem format_param_decl_unsupported_witness:
  "WhichOneof_value (POther ''bool'') = Some ''bool''
   \<and> ''bool'' \<notin> {''integer'', ''double'', ''string''}
   \<and> format_param_decl (spec_base mod_name sample_literal) ''p'' (POther ''bool'')
       = Inl ValueError
   \<and> format_param_type (POther ''bool'') = Inl ValueError"
  using format_param_decl_unsupported [of "POther ''bool''" "''bool''" mod_name sample_literal "''p''"]
  by simp

section \<open>What the writers write\<close>

text \<open>
  Each loop and each part of the two writers, when it raises nothing, adds to the text the
  lines of its block and changes nothing else; and it raises nothing only if every entry of
  its block could be formatted.
\<close>

lemma and_then_Inl [simp]: "and_then (Inl e, s) k = (Inl e, s)"
  by (simp add: and_then_def)

lemma and_then_Inr [simp]: "and_then (Inr u, s) k = k s"
  by (simp add: and_then_def)

lemma and_then_returns [simp]: "and_then (returns s) k = k s"
  by (simp add: returns_def)

lemma and_then_eq_Inr:
  "and_then r k = (Inr u, s') \<longleftrightarrow> (\<exists>s1. r = (Inr (), s1) \<and> k s1 = (Inr u, s'))"
  by (cases r; cases "fst r") (auto simp: and_then_def)

lemma writeln_fields [simp]:
  "dest (writeln l s) = dest s @ [(indent s, l)]"
  "indent (writeln l s) = indent s"
  "module_names (writeln l s) = module_names s"
  "pmodules (writeln l s) = pmodules s"
  "ext_modules (writeln l s) = ext_modules s"
  by (simp_all add: writeln_def)

lemma map_upt_shift: "map f [0..<Suc n] = f 0 # map (\<lambda>k. f (Suc k)) [0..<n]"
  by (simp add: map_upt_Suc del: upt_Suc)

lemma separated_offset:
  "length ps = length ds \<Longrightarrow>
   map (\<lambda>k. (i, f (ds ! k) @ (if 0 + int k = int (length ps) - 1 then [] else '','') @ t))
     [0..<length ds]
   = at_depth i (map (\<lambda>l. l @ t) (separated (map f ds)))"
  by (auto simp: at_depth_def separated_def comma_after_def)

subsection \<open>The loop over the ports of a module\<close>

lemma write_port_decls_returns:
  "map format_port_decl ps = map Inr ds \<Longrightarrow>
   write_port_decls len num ps self =
     returns (self\<lparr>dest := dest self @
        map (\<lambda>k. (indent self, ds ! k @ (if num + int k = len - 1 then [] else '','')))
          [0..<length ds]\<rparr>)"
proof (induction ps arbitrary: ds num self)
  case Nil
  then show ?case by simp
next
  case (Cons p ps)
  then obtain d ds' where ds: "ds = d # ds'" and d: "format_port_decl p = Inr d"
    and rest: "map format_port_decl ps = map Inr ds'"
    by (cases ds) auto
  show ?case
    by (simp add: d ds Cons.IH [OF rest] writeln_def map_upt_shift del: upt_Suc)
qed

lemma write_port_decls_Inr:
  "write_port_decls len num ps self = (Inr u, self') \<Longrightarrow>
   \<exists>ds. map format_port_decl ps = map Inr ds"
proof (induction ps arbitrary: num self)
  case Nil
  then show ?case by simp
next
  case (Cons p ps)
  then obtain d where d: "format_port_decl p = Inr d"
    by (cases "format_port_decl p") (auto simp: Let_def)
  with Cons.prems have "write_port_decls len (num + 1) ps
      (writeln (d @ (if num = len - 1 then [] else '','')) self) = (Inr u, self')"
    by (simp add: Let_def)
  from Cons.IH [OF this] obtain ds where "map format_port_decl ps = map Inr ds" ..
  with d have "map format_port_decl (p # ps) = map Inr (d # ds)" by simp
  then show ?case by blast
qed

lemma write_port_decls_separated:
  assumes "map format_port_decl ps = map Inr ds"
  shows "write_port_decls (int (length ps)) 0 ps self =
           returns (self\<lparr>dest := dest self @ at_depth (indent self) (separated ds)\<rparr>)"
proof -
  have len: "length ps = length ds"
    using assms by (metis length_map)
  show ?thesis
    using write_port_decls_returns [OF assms, of "int (length ps)" 0 self]
      separated_offset [OF len, of "indent self" "\<lambda>d. d" "[]"]
    by simp
qed

subsection \<open>The loop over the default parameters\<close>

lemma write_param_decls_returns:
  "map (\<lambda>(name, p). format_param_decl B name p) ps = map Inr ds \<Longrightarrow>
   write_param_decls B len num ps self =
     returns (self\<lparr>dest := dest self @
        map (\<lambda>k. (indent self, ds ! k @ (if num + int k = len - 1 then [] else '','')))
          [0..<length ds]\<rparr>)"
proof (induction ps arbitrary: ds num self)
  case Nil
  then show ?case by simp
next
  case (Cons p ps)
  obtain name pp where p: "p = (name, pp)" by (cases p)
  with Cons.prems obtain d ds' where ds: "ds = d # ds'"
    and d: "format_param_decl B name pp = Inr d"
    and rest: "map (\<lambda>(name, p). format_param_decl B name p) ps = map Inr ds'"
    by (cases ds) auto
  show ?case
    by (simp add: p d ds Cons.IH [OF rest] writeln_def map_upt_shift del: upt_Suc)
qed

lemma write_param_decls_Inr:
  "write_param_decls B len num ps self = (Inr u, self') \<Longrightarrow>
   \<exists>ds. map (\<lambda>(name, p). format_param_decl B name p) ps = map Inr ds"
proof (induction ps arbitrary: num self)
  case Nil
  then show ?case by simp
next
  case (Cons p ps)
  obtain name pp where p: "p = (name, pp)" by (cases p)
  with Cons.prems obtain d where d: "format_param_decl B name pp = Inr d"
    by (cases "format_param_decl B name pp") (auto simp: Let_def)
  with Cons.prems p have "write_param_decls B len (num + 1) ps
      (writeln (d @ (if num = len - 1 then [] else '','')) self) = (Inr u, self')"
    by (simp add: Let_def)
  from Cons.IH [OF this] obtain ds
    where "map (\<lambda>(name, p). format_param_decl B name p) ps = map Inr ds" ..
  with d p have "map (\<lambda>(name, p). format_param_decl B name p) (p # ps) = map Inr (d # ds)"
    by simp
  then show ?case by blast
qed

lemma write_param_decls_separated:
  assumes "map (\<lambda>(name, p). format_param_decl B name p) ps = map Inr ds"
  shows "write_param_decls B (int (length ps)) 0 ps self =
           returns (self\<lparr>dest := dest self @ at_depth (indent self) (separated ds)\<rparr>)"
proof -
  have len: "length ps = length ds"
    using assms by (metis length_map)
  show ?thesis
    using write_param_decls_returns [OF assms, of "int (length ps)" 0 self]
      separated_offset [OF len, of "indent self" "\<lambda>d. d" "[]"]
    by simp
qed

subsection \<open>The loop over the connections\<close>

lemma write_connections_prefix:
  "map (map_of (inst_connections pinst)) pre = map Some cs \<Longrightarrow>
   write_connections pinst len num (pre @ post) self =
     write_connections pinst len (num + int (length pre)) post
       (self\<lparr>dest := dest self @
          map (\<lambda>k. (indent self, binding (pre ! k) (cs ! k)
                 @ (if num + int k = len - 1 then [] else '','') @ '' ''))
            [0..<length cs]\<rparr>)"
proof (induction pre arbitrary: cs num self)
  case Nil
  then show ?case by simp
next
  case (Cons p pre)
  then obtain c cs' where cs: "cs = c # cs'" and c: "map_of (inst_connections pinst) p = Some c"
    and rest: "map (map_of (inst_connections pinst)) pre = map Some cs'"
    by (cases cs) auto
  show ?case
    by (simp add: c cs Cons.IH [OF rest] writeln_def map_upt_shift binding_def add.assoc
        del: upt_Suc)
qed


lemma bindings_separated:
  assumes "length names = length cs"
  shows "map (\<lambda>k. (i, binding (names ! k) (cs ! k)
                 @ (if 0 + int k = int (length names) - 1 then [] else '','') @ '' ''))
            [0..<length cs]
         = at_depth i (map (\<lambda>l. l @ '' '') (separated (map2 binding names cs)))"
  using assms by (auto simp: at_depth_def separated_def comma_after_def)

lemma write_connections_returns:
  assumes "map (map_of (inst_connections pinst)) names = map Some cs"
  shows "write_connections pinst (int (length names)) 0 names self =
           returns (self\<lparr>dest := dest self @ at_depth (indent self)
              (map (\<lambda>l. l @ '' '') (separated (map2 binding names cs)))\<rparr>)"
proof -
  have len: "length names = length cs"
    using assms by (metis length_map)
  show ?thesis
    using write_connections_prefix [OF assms, of "int (length names)" 0 "[]" self]
      bindings_separated [OF len, of "indent self"]
    by simp
qed

lemma write_connections_raises:
  assumes "map (map_of (inst_connections pinst)) pre = map Some cs"
    and "map_of (inst_connections pinst) pname = None"
  shows "write_connections pinst (int (length (pre @ pname # post))) 0 (pre @ pname # post) self =
           (Inl (UnconnectedPort pname (inst_name pinst)),
            self\<lparr>dest := dest self @ at_depth (indent self)
              (map (\<lambda>k. binding (pre ! k) (cs ! k) @ '', '') [0..<length pre])\<rparr>)"
proof -
  have len: "length pre = length cs"
    using assms(1) by (metis length_map)
  have "map (\<lambda>k. (indent self, binding (pre ! k) (cs ! k)
                 @ (if 0 + int k = int (length (pre @ pname # post)) - 1 then [] else '','')
                 @ '' ''))
            [0..<length cs]
        = at_depth (indent self) (map (\<lambda>k. binding (pre ! k) (cs ! k) @ '', '') [0..<length pre])"
    using len by (auto simp: at_depth_def)
  then show ?thesis
    using write_connections_prefix [OF assms(1), of "int (length (pre @ pname # post))" 0
        "pname # post" self] assms(2)
    by simp
qed

lemma write_connections_Inr:
  "write_connections pinst len num names self = (Inr u, self') \<Longrightarrow>
   \<exists>cs. map (map_of (inst_connections pinst)) names = map Some cs"
proof (induction names arbitrary: num self)
  case Nil
  then show ?case by simp
next
  case (Cons p names)
  then obtain c where c: "map_of (inst_connections pinst) p = Some c"
    by (cases "map_of (inst_connections pinst) p") auto
  with Cons.prems have "write_connections pinst len (num + 1) names
      (writeln (''.'' @ p @ ''('' @ format_connection c @ '')''
         @ (if num = len - 1 then [] else '','') @ '' '') self) = (Inr u, self')"
    by (simp add: Let_def)
  from Cons.IH [OF this] obtain cs
    where "map (map_of (inst_connections pinst)) names = map Some cs" ..
  with c have "map (map_of (inst_connections pinst)) (p # names) = map Some (c # cs)"
    by simp
  then show ?case by blast
qed

subsection \<open>The loop over the parameter values\<close>

lemma write_param_values_returns:
  "map (\<lambda>(pname, p). get_param_value B p) ps = map Inr vs \<Longrightarrow>
   write_param_values B ps self =
     returns (self\<lparr>dest := dest self @
        at_depth (indent self) (map2 override (map fst ps) vs)\<rparr>)"
proof (induction ps arbitrary: vs self)
  case Nil
  then show ?case by (simp add: at_depth_def)
next
  case (Cons p ps)
  obtain name pp where p: "p = (name, pp)" by (cases p)
  with Cons.prems obtain v vs' where vs: "vs = v # vs'"
    and v: "get_param_value B pp = Inr v"
    and rest: "map (\<lambda>(pname, p). get_param_value B p) ps = map Inr vs'"
    by (cases vs) auto
  show ?case
    by (simp add: p v vs Cons.IH [OF rest] writeln_def at_depth_def override_def)
qed

lemma write_param_values_Inr:
  "write_param_values B ps self = (Inr u, self') \<Longrightarrow>
   \<exists>vs. map (\<lambda>(pname, p). get_param_value B p) ps = map Inr vs"
proof (induction ps arbitrary: self)
  case Nil
  then show ?case by simp
next
  case (Cons p ps)
  obtain name pp where p: "p = (name, pp)" by (cases p)
  with Cons.prems obtain v where v: "get_param_value B pp = Inr v"
    by (cases "get_param_value B pp") auto
  with Cons.prems p have "write_param_values B ps
      (writeln (name @ ''='' @ v @ '' '') self) = (Inr u, self')"
    by simp
  from Cons.IH [OF this] obtain vs
    where "map (\<lambda>(pname, p). get_param_value B p) ps = map Inr vs" ..
  with v p have "map (\<lambda>(pname, p). get_param_value B p) (p # ps) = map Inr (v # vs)"
    by simp
  then show ?case by blast
qed


lemma separated_Nil_iff [simp]: "separated ds = [] \<longleftrightarrow> ds = []"
  by (simp add: separated_def)

lemma length_separated [simp]: "length (separated ds) = length ds"
  by (simp add: separated_def)


lemma write_connections_returns_len:
  assumes "map (map_of (inst_connections pinst)) names = map Some cs"
    and "len = int (length names)"
  shows "write_connections pinst len 0 names self =
           returns (self\<lparr>dest := dest self @ at_depth (indent self)
              (map (\<lambda>l. l @ '' '') (separated (map2 binding names cs)))\<rparr>)"
  using write_connections_returns [OF assms(1)] assms(2) by simp

subsection \<open>The parts of the instance writer\<close>

lemma write_instance_parameters_returns:
  assumes vals: "map (\<lambda>(pname, p). get_param_value B p) (inst_parameters pinst) = map Inr vs"
  shows "write_instance_parameters B pinst self =
           returns (self\<lparr>dest := dest self
             @ override_block (indent self) (map fst (inst_parameters pinst)) vs\<rparr>)"
proof -
  have lv: "length (inst_parameters pinst) = length vs"
    using vals by (metis length_map)
  then have ev: "vs = [] \<longleftrightarrow> inst_parameters pinst = []"
    by auto
  show ?thesis
    unfolding write_instance_parameters_def
    by (simp add: Let_def write_param_values_returns [OF vals] override_block_def block_def ev
        writeln_def returns_def)
qed

lemma write_instance_parameters_Inr:
  assumes "write_instance_parameters B pinst self = (Inr u, self')"
  shows "\<exists>vs. map (\<lambda>(pname, p). get_param_value B p) (inst_parameters pinst) = map Inr vs"
proof (cases "inst_parameters pinst = []")
  case True
  then show ?thesis by simp
next
  case False
  with assms obtain s1 where
    "write_param_values B (inst_parameters pinst)
       ((writeln ''#( '' self)\<lparr>indent := indent (writeln ''#( '' self) + 1\<rparr>) = (Inr (), s1)"
    by (auto simp: write_instance_parameters_def Let_def and_then_eq_Inr)
  then show ?thesis by (rule write_param_values_Inr)
qed

lemma write_instance_connections_returns:
  assumes conns: "map (map_of (inst_connections pinst)) (port_order m) = map Some cs"
  shows "write_instance_connections pinst m self =
           returns (self\<lparr>dest := dest self @ connection_block (indent self) (port_order m) cs\<rparr>)"
proof -
  have lc: "length (ports m) = length cs"
    using conns by (metis length_map port_order_def)
  then have ec: "cs = [] \<longleftrightarrow> ports m = []"
    by auto
  show ?thesis
    unfolding write_instance_connections_def
    by (simp add: Let_def write_connections_returns_len [OF conns [unfolded port_order_def]]
        port_order_def connection_block_def block_def ec writeln_def returns_def)
qed

lemma write_instance_connections_Inr:
  assumes "write_instance_connections pinst m self = (Inr u, self')"
  shows "\<exists>cs. map (map_of (inst_connections pinst)) (port_order m) = map Some cs"
proof (cases "ports m = []")
  case True
  then show ?thesis by (simp add: port_order_def)
next
  case False
  with assms obtain s1 where
    "write_connections pinst (int (length (port_order m))) 0 (port_order m)
       ((writeln ''( '' self)\<lparr>indent := indent (writeln ''( '' self) + 1\<rparr>) = (Inr (), s1)"
    by (auto simp: write_instance_connections_def Let_def and_then_eq_Inr port_order_def)
  then show ?thesis by (rule write_connections_Inr)
qed

lemma bindings_before:
  "length pre = length cs \<Longrightarrow>
   map (\<lambda>k. binding (pre ! k) (cs ! k) @ '', '') [0..<length pre]
   = map (\<lambda>l. l @ '', '') (map2 binding pre cs)"
  by (rule nth_equalityI) simp_all

lemma write_instance_connections_raises:
  assumes order: "port_order m = pre @ pname # post"
    and pre: "map (map_of (inst_connections pinst)) pre = map Some cs"
    and missing: "map_of (inst_connections pinst) pname = None"
  shows "write_instance_connections pinst m self =
           (Inl (UnconnectedPort pname (inst_name pinst)),
            self\<lparr>indent := indent self + 1,
                 dest := dest self @ (indent self, ''( '')
                   # at_depth (indent self + 1) (map (\<lambda>l. l @ '', '') (map2 binding pre cs))\<rparr>)"
proof -
  have ne: "ports m \<noteq> []"
    using order by (auto simp: port_order_def)
  have len: "length pre = length cs"
    using pre by (metis length_map)
  have "write_connections pinst (int (length (port_order m))) 0 (port_order m)
          ((writeln ''( '' self)\<lparr>indent := indent (writeln ''( '' self) + 1\<rparr>)
        = (Inl (UnconnectedPort pname (inst_name pinst)),
           self\<lparr>indent := indent self + 1,
                dest := dest self @ (indent self, ''( '')
                  # at_depth (indent self + 1) (map (\<lambda>l. l @ '', '') (map2 binding pre cs))\<rparr>)"
    unfolding order
    using write_connections_raises [OF pre missing, of post
        "(writeln ''( '' self)\<lparr>indent := indent (writeln ''( '' self) + 1\<rparr>"]
    by (simp add: bindings_before [OF len] writeln_def)
  then show ?thesis
    unfolding write_instance_connections_def using ne
    by (simp add: Let_def port_order_def)
qed


subsection \<open>The instance writer as a whole\<close>

lemma write_instance_returns:
  assumes res: "resolve_reference B self (inst_module pinst) = Inr target"
    and vals: "map (\<lambda>(pname, p). get_param_value B p) (inst_parameters pinst) = map Inr vs"
    and conns: "map (map_of (inst_connections pinst)) (port_order (rm_module target)) = map Some cs"
  shows "write_instance B pinst self =
           returns (self\<lparr>dest := dest self
             @ [(indent self, rm_module_name target)]
             @ override_block (indent self) (map fst (inst_parameters pinst)) vs
             @ [(indent self, inst_name pinst)]
             @ connection_block (indent self) (port_order (rm_module target)) cs
             @ [(indent self, [])]\<rparr>)"
  unfolding write_instance_def
  by (simp add: res Let_def write_instance_parameters_returns [OF vals]
      write_instance_connections_returns [OF conns] writeln_def returns_def)

lemma write_instance_unconnected:
  assumes res: "resolve_reference B self (inst_module pinst) = Inr target"
    and vals: "map (\<lambda>(pname, p). get_param_value B p) (inst_parameters pinst) = map Inr vs"
    and order: "port_order (rm_module target) = pre @ pname # post"
    and pre: "map (map_of (inst_connections pinst)) pre = map Some cs"
    and missing: "map_of (inst_connections pinst) pname = None"
  shows "write_instance B pinst self =
           (Inl (UnconnectedPort pname (inst_name pinst)),
            self\<lparr>indent := indent self + 1,
                 dest := dest self
                   @ [(indent self, rm_module_name target)]
                   @ override_block (indent self) (map fst (inst_parameters pinst)) vs
                   @ [(indent self, inst_name pinst), (indent self, ''( '')]
                   @ at_depth (indent self + 1) (map (\<lambda>l. l @ '', '') (map2 binding pre cs))\<rparr>)"
  unfolding write_instance_def
  by (simp add: res Let_def write_instance_parameters_returns [OF vals]
      write_instance_connections_raises [OF order pre missing] writeln_def returns_def)

lemma write_instance_Inr:
  assumes "write_instance B pinst self = (Inr u, self')"
  shows "\<exists>target vs cs.
           resolve_reference B self (inst_module pinst) = Inr target
           \<and> map (\<lambda>(pname, p). get_param_value B p) (inst_parameters pinst) = map Inr vs
           \<and> map (map_of (inst_connections pinst)) (port_order (rm_module target)) = map Some cs"
proof -
  from assms obtain target where res: "resolve_reference B self (inst_module pinst) = Inr target"
    by (cases "resolve_reference B self (inst_module pinst)") (auto simp: write_instance_def)
  with assms obtain s1 s2 where
    p: "write_instance_parameters B pinst (writeln (rm_module_name target) self) = (Inr (), s1)"
    and c: "write_instance_connections pinst (rm_module target) (writeln (inst_name pinst) s1)
              = (Inr (), s2)"
    by (auto simp: write_instance_def Let_def and_then_eq_Inr)
  from write_instance_parameters_Inr [OF p] write_instance_connections_Inr [OF c] res
  show ?thesis by blast
qed

subsection \<open>Lines written earlier do not matter\<close>

lemma prepend_fields [simp]:
  "dest (prepend d s) = d @ dest s"
  "indent (prepend d s) = indent s"
  "module_names (prepend d s) = module_names s"
  "pmodules (prepend d s) = pmodules s"
  "ext_modules (prepend d s) = ext_modules s"
  by (simp_all add: prepend_def)

lemma prepend_commute [simp]:
  "writeln l (prepend d s) = prepend d (writeln l s)"
  "(prepend d s)\<lparr>indent := i\<rparr> = prepend d (s\<lparr>indent := i\<rparr>)"
  "(prepend d s)\<lparr>module_names := ns\<rparr> = prepend d (s\<lparr>module_names := ns\<rparr>)"
  "(prepend d s)\<lparr>pmodules := ms\<rparr> = prepend d (s\<lparr>pmodules := ms\<rparr>)"
  by (simp_all add: prepend_def writeln_def)

lemma resolve_reference_prepend [simp]:
  "resolve_reference B (prepend d s) r = resolve_reference B s r"
  by (simp add: resolve_reference_def split: Reference.splits)

lemma shift_simps [simp]:
  "shift d (r, s) = (r, prepend d s)"
  by (simp add: shift_def)

lemma returns_prepend: "returns (prepend d s) = shift d (returns s)"
  by (simp add: returns_def)

lemma and_then_shift:
  "(\<And>s. k (prepend d s) = shift d (k' s)) \<Longrightarrow>
   and_then (shift d r) k = shift d (and_then r k')"
  by (cases r; cases "fst r") (auto simp: and_then_def)

lemma write_param_values_prepend:
  "write_param_values B ps (prepend d s) = shift d (write_param_values B ps s)"
  by (induction ps arbitrary: s) (auto simp: returns_def split: sum.splits)

lemma write_connections_prepend:
  "write_connections pinst len num names (prepend d s) =
     shift d (write_connections pinst len num names s)"
  by (induction names arbitrary: s num) (auto simp: returns_def Let_def split: option.splits)



lemma write_signal_decls_prepend:
  "write_signal_decls sigs (prepend d s) = prepend d (write_signal_decls sigs s)"
  by (induction sigs arbitrary: s) auto


lemma write_instance_parameters_prepend:
  "write_instance_parameters B pinst (prepend d s) = shift d (write_instance_parameters B pinst s)"
  unfolding write_instance_parameters_def
  by (simp add: Let_def write_param_values_prepend and_then_shift returns_prepend)

lemma write_instance_connections_prepend:
  "write_instance_connections pinst m (prepend d s) =
     shift d (write_instance_connections pinst m s)"
  unfolding write_instance_connections_def
  by (simp add: Let_def write_connections_prepend and_then_shift returns_prepend)

lemma write_instance_prepend:
  "write_instance B pinst (prepend d s) = shift d (write_instance B pinst s)"
  unfolding write_instance_def
  by (simp add: Let_def write_instance_parameters_prepend write_instance_connections_prepend
      and_then_shift returns_prepend split: sum.splits)

lemma write_instances_prepend:
  "write_instances B is (prepend d s) = shift d (write_instances B is s)"
  by (induction "is" arbitrary: s)
    (simp_all add: returns_prepend write_instance_prepend and_then_shift)



lemma write_module_body_prepend:
  "write_module_body B m n (prepend d s) = shift d (write_module_body B m n s)"
  unfolding write_module_body_def
  by (simp add: Let_def write_signal_decls_prepend write_instances_prepend and_then_shift
      returns_prepend)



lemma prepend_dest: "prepend (dest s) (s\<lparr>dest := []\<rparr>) = s"
  by (simp add: prepend_def)

lemma outcome_extends:
  assumes "\<And>d s. f (prepend d s) = shift d (f s)" and "f s = (r, s')"
  shows "\<exists>ls. dest s' = dest s @ ls"
proof -
  have "f s = shift (dest s) (f (s\<lparr>dest := []\<rparr>))"
    using assms(1) [of "dest s" "s\<lparr>dest := []\<rparr>"] by (simp add: prepend_dest)
  with assms(2) have "s' = prepend (dest s) (snd (f (s\<lparr>dest := []\<rparr>)))"
    by (simp add: shift_def)
  then show ?thesis by simp
qed


subsection \<open>The parts of the module definition writer\<close>

lemma write_module_parameters_returns:
  assumes decls: "map (\<lambda>(name, p). format_param_decl B name p) (mod_default_parameters m)
                    = map Inr ds"
  shows "write_module_parameters B m self =
           returns (self\<lparr>dest := dest self @ param_decl_block (indent self) ds\<rparr>)"
proof -
  have "length (mod_default_parameters m) = length ds"
    using decls by (metis length_map)
  then have e: "ds = [] \<longleftrightarrow> mod_default_parameters m = []"
    by auto
  show ?thesis
    unfolding write_module_parameters_def
    by (simp add: Let_def write_param_decls_separated [OF decls] param_decl_block_def block_def e
        writeln_def returns_def)
qed

lemma write_module_parameters_Inr:
  assumes "write_module_parameters B m self = (Inr u, self')"
  shows "\<exists>ds. map (\<lambda>(name, p). format_param_decl B name p) (mod_default_parameters m)
           = map Inr ds"
proof (cases "mod_default_parameters m = []")
  case True
  then show ?thesis by simp
next
  case False
  with assms obtain s1 where
    "write_param_decls B (int (length (mod_default_parameters m))) 0 (mod_default_parameters m)
       ((writeln ''#( '' self)\<lparr>indent := indent (writeln ''#( '' self) + 1\<rparr>) = (Inr (), s1)"
    by (auto simp: write_module_parameters_def Let_def and_then_eq_Inr)
  then show ?thesis by (rule write_param_decls_Inr)
qed

lemma write_module_ports_returns:
  assumes decls: "map format_port_decl (mod_ports m) = map Inr ds"
  shows "write_module_ports m self =
           returns (self\<lparr>dest := dest self @ port_decl_block (indent self) ds\<rparr>)"
proof -
  have "length (mod_ports m) = length ds"
    using decls by (metis length_map)
  then have e: "ds = [] \<longleftrightarrow> mod_ports m = []"
    by auto
  show ?thesis
    unfolding write_module_ports_def
    by (simp add: Let_def write_port_decls_separated [OF decls] port_decl_block_def block_def e
        writeln_def returns_def)
qed

lemma write_module_ports_Inr:
  assumes "write_module_ports m self = (Inr u, self')"
  shows "\<exists>ds. map format_port_decl (mod_ports m) = map Inr ds"
proof (cases "mod_ports m = []")
  case True
  then show ?thesis by simp
next
  case False
  with assms obtain s1 where
    "write_port_decls (int (length (mod_ports m))) 0 (mod_ports m)
       ((writeln ''( '' self)\<lparr>indent := indent (writeln ''( '' self) + 1\<rparr>) = (Inr (), s1)"
    by (auto simp: write_module_ports_def Let_def and_then_eq_Inr)
  then show ?thesis by (rule write_port_decls_Inr)
qed

lemma emitted_append: "dest s' = dest s @ ls \<Longrightarrow> emitted s (r, s') = ls"
  by (simp add: emitted_def)

lemma write_module_definition_Inr:
  assumes ok: "fst (write_module_definition B m self) = Inr ()"
  shows "\<exists>ddecls pdecls rest.
           map (\<lambda>(name, p). format_param_decl B name p) (mod_default_parameters m)
             = map Inr ddecls
           \<and> map format_port_decl (mod_ports m) = map Inr pdecls
           \<and> emitted self (write_module_definition B m self) =
               [(indent self, ''module '' @ get_module_name B m)]
               @ param_decl_block (indent self) ddecls
               @ port_decl_block (indent self) pdecls @ rest"
proof -
  obtain self' where run: "write_module_definition B m self = (Inr (), self')"
    using ok by (cases "write_module_definition B m self") auto
  have fresh_name: "get_module_name B m \<notin> module_names self"
    using run by (auto simp: write_module_definition_def Let_def)
  define s0 where "s0 = writeln (''module '' @ get_module_name B m)
    (self\<lparr>module_names := insert (get_module_name B m) (module_names self),
          pmodules := (pmodules self)(mod_name m \<mapsto> m)\<rparr>)"
  from run fresh_name obtain s1 s2 where
    p: "write_module_parameters B m s0 = (Inr (), s1)"
    and q: "write_module_ports m s1 = (Inr (), s2)"
    and b: "write_module_body B m (get_module_name B m) s2 = (Inr (), self')"
    by (auto simp: write_module_definition_def Let_def and_then_eq_Inr s0_def)
  from write_module_parameters_Inr [OF p] obtain ddecls where
    dd: "map (\<lambda>(name, p). format_param_decl B name p) (mod_default_parameters m)
           = map Inr ddecls" ..
  from write_module_ports_Inr [OF q] obtain pdecls where
    pd: "map format_port_decl (mod_ports m) = map Inr pdecls" ..
  from p have s1: "s1 = s0\<lparr>dest := dest s0 @ param_decl_block (indent s0) ddecls\<rparr>"
    by (simp add: write_module_parameters_returns [OF dd] returns_def)
  from q have s2: "s2 = s1\<lparr>dest := dest s1 @ port_decl_block (indent s1) pdecls\<rparr>"
    by (simp add: write_module_ports_returns [OF pd] returns_def)
  from outcome_extends [of "write_module_body B m (get_module_name B m)", OF _ b]
  obtain rest where "dest self' = dest s2 @ rest"
    by (auto simp: write_module_body_prepend)
  then have "dest self' = dest self @ [(indent self, ''module '' @ get_module_name B m)]
      @ param_decl_block (indent self) ddecls @ port_decl_block (indent self) pdecls @ rest"
    by (simp add: s2 s1 s0_def)
  then have "emitted self (write_module_definition B m self) =
      [(indent self, ''module '' @ get_module_name B m)]
      @ param_decl_block (indent self) ddecls @ port_decl_block (indent self) pdecls @ rest"
    unfolding run by (rule emitted_append)
  with dd pd show ?thesis by blast
qed

lemma separated_nth:
  "k < length entries \<Longrightarrow>
   separated entries ! k = entries ! k @ (if Suc k < length entries then '','' else [])"
  by (auto simp: separated_def comma_after_def)

section \<open>The module definition writer\<close>

text \<open>
  Claim C2. For every Module whose canonical name is already in the registry of names,
  \<^verbatim>\<open>write_module_definition\<close> raises the duplicate-definition error, which holds that
  name, and leaves the netlister as it was: no line is written for the module and nothing
  is registered.
\<close>

theorem write_module_definition_duplicate:
  "get_module_name B m \<in> module_names self \<Longrightarrow>
   write_module_definition B m self = (Inl (DoublyDefined (get_module_name B m)), self)"
  by (simp add: write_module_definition_def)

theorem write_module_definition_duplicate_witness:
  "get_module_name sample_base
       \<lparr>mod_name = ''top'', mod_ports = [], mod_signals = [], mod_instances = [],
        mod_default_parameters = []\<rparr>
     \<in> module_names (fresh\<lparr>module_names := {''top''}\<rparr>)
   \<and> write_module_definition sample_base
       \<lparr>mod_name = ''top'', mod_ports = [], mod_signals = [], mod_instances = [],
        mod_default_parameters = []\<rparr>
       (fresh\<lparr>module_names := {''top''}\<rparr>)
     = (Inl (DoublyDefined ''top''), fresh\<lparr>module_names := {''top''}\<rparr>)"
  using write_module_definition_duplicate
    [of sample_base
        "\<lparr>mod_name = ''top'', mod_ports = [], mod_signals = [], mod_instances = [],
          mod_default_parameters = []\<rparr>"
        "fresh\<lparr>module_names := {''top''}\<rparr>"]
  by (simp add: sample_base_simps)

section \<open>The sample circuit\<close>

lemma sample_resolve:
  "resolve_reference sample_base sample_registered (inst_module sample_inst) =
     Inr \<lparr>rm_module = IsModule sample_leaf, rm_module_name = ''inv''\<rparr>"
  by (simp add: resolve_reference_def sample_registered_def sample_inst_def sample_base_simps
      sample_leaf_def)

lemma sample_values:
  "map (\<lambda>(pname, p). get_param_value sample_base p) (inst_parameters sample_inst) =
     map Inr [''8'', ''s'']"
  by (simp add: sample_inst_def sample_base_simps str_int_digit digit_char_def)

lemma sample_port_order: "port_order (IsModule sample_leaf) = [''a'', ''y'']"
  by (simp add: port_order_def sample_leaf_def)

lemma sample_connections:
  "map (map_of (inst_connections sample_inst)) (port_order (IsModule sample_leaf)) =
     map Some [Conn_slice \<lparr>slice_signal = ''x'', slice_top = 0, slice_bot = 0\<rparr>,
               Conn_sig \<lparr>sig_name = ''z'', sig_width = 4\<rparr>]"
  by (simp add: sample_port_order) (simp add: sample_inst_def)

lemma separated_two: "separated [a, b] = [a @ '','', b]"
  by (simp add: separated_def comma_after_def)

lemma sample_bindings:
  "binding ''a'' (Conn_slice \<lparr>slice_signal = ''x'', slice_top = 0, slice_bot = 0\<rparr>) = ''.a(x[0])''"
  "binding ''y'' (Conn_sig \<lparr>sig_name = ''z'', sig_width = 4\<rparr>) = ''.y(z)''"
  "binding ''a'' (Conn_literal ''0'') = ''.a(0)''"
  by (simp_all add: binding_def format_signal_slice_def format_signal_ref_def str_int_digit
      digit_char_def)


lemma sample_open_text:
  "write_instance sample_base (sample_inst\<lparr>inst_connections := [(''a'', Conn_literal ''0'')]\<rparr>)
     sample_registered =
   (Inl (UnconnectedPort ''y'' ''u1''),
    sample_registered\<lparr>indent := 1, dest :=
      [(0, ''inv''), (0, ''#( ''), (1, ''w=8 ''), (1, ''k=s ''), (0, '') ''), (0, ''u1''),
       (0, ''( ''), (1, ''.a(0), '')]\<rparr>)"
  by (simp add: write_instance_def write_instance_parameters_def write_instance_connections_def
      resolve_reference_def Let_def sample_base_simps
      returns_def writeln_def str_int_digit digit_char_def sample_inst_def
      sample_leaf_def sample_registered_def fresh_def)

lemma sample_param_decls:
  "map (\<lambda>(name, p). format_param_decl sample_base name p) (mod_default_parameters sample_leaf)
     = map Inr [''parameter w = 4'', ''parameter tag'']"
  by (simp add: sample_leaf_def format_param_decl_def sample_base_simps str_int_digit
      digit_char_def)

lemma sample_port_decls:
  "map format_port_decl (mod_ports sample_leaf) = map Inr [''input wire a'', ''output wire [3:0] y'']"
  by (simp add: sample_leaf_def format_port_decl_def port_direction_def format_signal_decl_def
      str_int_digit digit_char_def)





section \<open>The instance writer\<close>

text \<open>
  The instance writer reads the connections of an instance only through the lookup by port
  name, so the order in which the connection mapping lists them does not matter.
\<close>

lemma write_connections_cong:
  "map_of (inst_connections p) = map_of (inst_connections q) \<Longrightarrow> inst_name p = inst_name q \<Longrightarrow>
   write_connections p len num names s = write_connections q len num names s"
  by (induction names arbitrary: num s) (simp_all add: Let_def split: option.splits)

lemma write_instance_cong:
  assumes "inst_name p = inst_name q" "inst_module p = inst_module q"
    "inst_parameters p = inst_parameters q"
    "map_of (inst_connections p) = map_of (inst_connections q)"
  shows "write_instance B p s = write_instance B q s"
proof -
  have par: "\<And>s. write_instance_parameters B p s = write_instance_parameters B q s"
    by (simp add: write_instance_parameters_def assms(3))
  have con: "\<And>m s. write_instance_connections p m s = write_instance_connections q m s"
    by (simp add: write_instance_connections_def Let_def
        write_connections_cong [OF assms(4) assms(1)])
  show ?thesis
    by (cases "resolve_reference B s (inst_module q)")
      (simp_all add: write_instance_def assms(1,2) par con)
qed

text \<open>
  Claim C4. For every Instance whose target resolves and has ports, and whose connection
  mapping has an entry for each of them (the parameter values being formatted without
  error), \<^verbatim>\<open>write_instance\<close> returns and the connection block it writes is, between its
  opening and closing lines, one named binding for each port of the target in the declared
  order of the ports, the first for the first port, each holding the connection the
  mapping gives for that port name. The order of the connection mapping is irrelevant: an
  instance that differs only in the order in which its mapping lists the same entries
  gives the same result.
\<close>

theorem connections_in_port_order:
  assumes res: "resolve_reference B self (inst_module pinst) = Inr target"
    and vals: "map (\<lambda>(pname, p). get_param_value B p) (inst_parameters pinst) = map Inr vs"
    and conns: "map (map_of (inst_connections pinst)) (port_order (rm_module target)) = map Some cs"
    and some: "ports (rm_module target) \<noteq> []"
  shows "write_instance B pinst self =
           returns (self\<lparr>dest := dest self
             @ [(indent self, rm_module_name target)]
             @ override_block (indent self) (map fst (inst_parameters pinst)) vs
             @ [(indent self, inst_name pinst), (indent self, ''( '')]
             @ at_depth (indent self + 1)
                 (map (\<lambda>l. l @ '' '') (separated (map2 binding (port_order (rm_module target)) cs)))
             @ [(indent self, ''); ''), (indent self, [])]\<rparr>)
         \<and> (\<forall>pinst'. inst_name pinst' = inst_name pinst \<and> inst_module pinst' = inst_module pinst
               \<and> inst_parameters pinst' = inst_parameters pinst
               \<and> distinct (map fst (inst_connections pinst))
               \<and> distinct (map fst (inst_connections pinst'))
               \<and> set (inst_connections pinst') = set (inst_connections pinst)
             \<longrightarrow> write_instance B pinst' self = write_instance B pinst self)"
proof
  have "length (ports (rm_module target)) = length cs"
    using conns by (metis length_map port_order_def)
  with some have "cs \<noteq> []" "port_order (rm_module target) \<noteq> []"
    by (auto simp: port_order_def)
  then show "write_instance B pinst self =
           returns (self\<lparr>dest := dest self
             @ [(indent self, rm_module_name target)]
             @ override_block (indent self) (map fst (inst_parameters pinst)) vs
             @ [(indent self, inst_name pinst), (indent self, ''( '')]
             @ at_depth (indent self + 1)
                 (map (\<lambda>l. l @ '' '') (separated (map2 binding (port_order (rm_module target)) cs)))
             @ [(indent self, ''); ''), (indent self, [])]\<rparr>)"
    by (simp add: write_instance_returns [OF res vals conns] connection_block_def block_def)
next
  show "\<forall>pinst'. inst_name pinst' = inst_name pinst \<and> inst_module pinst' = inst_module pinst
               \<and> inst_parameters pinst' = inst_parameters pinst
               \<and> distinct (map fst (inst_connections pinst))
               \<and> distinct (map fst (inst_connections pinst'))
               \<and> set (inst_connections pinst') = set (inst_connections pinst)
             \<longrightarrow> write_instance B pinst' self = write_instance B pinst self"
    by (auto intro!: write_instance_cong simp: map_of_inject_set)
qed

theorem connections_in_port_order_witness:
  "resolve_reference sample_base sample_registered (inst_module sample_inst) =
     Inr \<lparr>rm_module = IsModule sample_leaf, rm_module_name = ''inv''\<rparr>
   \<and> map (\<lambda>(pname, p). get_param_value sample_base p) (inst_parameters sample_inst) =
       map Inr [''8'', ''s'']
   \<and> map (map_of (inst_connections sample_inst)) (port_order (IsModule sample_leaf)) =
       map Some [Conn_slice \<lparr>slice_signal = ''x'', slice_top = 0, slice_bot = 0\<rparr>,
                 Conn_sig \<lparr>sig_name = ''z'', sig_width = 4\<rparr>]
   \<and> map fst (inst_connections sample_inst) = [''y'', ''a'']
   \<and> write_instance sample_base sample_inst sample_registered =
       returns (sample_registered\<lparr>dest :=
         [(0, ''inv''), (0, ''#( ''), (1, ''w=8 ''), (1, ''k=s ''), (0, '') ''), (0, ''u1''),
          (0, ''( ''), (1, ''.a(x[0]), ''), (1, ''.y(z) ''), (0, ''); ''), (0, [])]\<rparr>)
   \<and> write_instance sample_base
         (sample_inst\<lparr>inst_connections := rev (inst_connections sample_inst)\<rparr>) sample_registered
       = write_instance sample_base sample_inst sample_registered"
proof -
  have ports: "ports (rm_module \<lparr>rm_module = IsModule sample_leaf, rm_module_name = ''inv''\<rparr>) \<noteq> []"
    by (simp add: sample_leaf_def)
  have conns: "map (map_of (inst_connections sample_inst))
      (port_order (rm_module \<lparr>rm_module = IsModule sample_leaf, rm_module_name = ''inv''\<rparr>)) =
     map Some [Conn_slice \<lparr>slice_signal = ''x'', slice_top = 0, slice_bot = 0\<rparr>,
               Conn_sig \<lparr>sig_name = ''z'', sig_width = 4\<rparr>]"
    using sample_connections by simp
  note at_sample = connections_in_port_order [OF sample_resolve sample_values conns ports]
  have keys: "map fst (inst_connections sample_inst) = [''y'', ''a'']"
    by (simp add: sample_inst_def)
  have run: "write_instance sample_base sample_inst sample_registered =
       returns (sample_registered\<lparr>dest :=
         [(0, ''inv''), (0, ''#( ''), (1, ''w=8 ''), (1, ''k=s ''), (0, '') ''), (0, ''u1''),
          (0, ''( ''), (1, ''.a(x[0]), ''), (1, ''.y(z) ''), (0, ''); ''), (0, [])]\<rparr>)"
    using at_sample [THEN conjunct1]
    by (simp add: sample_port_order separated_two sample_bindings override_block_def block_def
        at_depth_def override_def)
      (simp add: sample_registered_def fresh_def sample_inst_def)
  have "write_instance sample_base
         (sample_inst\<lparr>inst_connections := rev (inst_connections sample_inst)\<rparr>) sample_registered
       = write_instance sample_base sample_inst sample_registered"
    using at_sample [THEN conjunct2, rule_format,
        of "sample_inst\<lparr>inst_connections := rev (inst_connections sample_inst)\<rparr>"]
    by (simp add: sample_inst_def insert_commute)
  with sample_resolve sample_values sample_connections keys run show ?thesis
    by simp
qed

text \<open>
  In a list of port names one of which has no connection there is a first such name.
\<close>

lemma first_missing:
  assumes "\<exists>p \<in> set names. m p = None"
  shows "\<exists>pre pname post cs. names = pre @ pname # post \<and> map m pre = map Some cs \<and> m pname = None"
proof -
  from split_list_first_prop [OF assms]
  obtain pre pname post where split: "names = pre @ pname # post"
    and missing: "m pname = None" and before: "\<forall>q \<in> set pre. m q \<noteq> None"
    by blast
  from before have "map m pre = map Some (map (\<lambda>q. the (m q)) pre)"
    by (induction pre) auto
  with split missing show ?thesis by blast
qed

text \<open>
  Claim C5. For every Instance whose target resolves (the parameter values being formatted
  without error) and whose connection mapping lacks an entry for some port of the target,
  \<^verbatim>\<open>write_instance\<close> raises the unconnected-port error, which holds the name of the
  first port in declared order that has no entry and the name of the instance. The text
  written ends with the bindings of the ports declared before that port: nothing is
  written for that port, for a later port, nor to close the block.
\<close>

theorem unconnected_port_raises:
  assumes res: "resolve_reference B self (inst_module pinst) = Inr target"
    and vals: "map (\<lambda>(pname, p). get_param_value B p) (inst_parameters pinst) = map Inr vs"
    and lacks: "\<exists>p \<in> set (port_order (rm_module target)). map_of (inst_connections pinst) p = None"
  shows "\<exists>pre pname post cs.
           port_order (rm_module target) = pre @ pname # post
           \<and> map (map_of (inst_connections pinst)) pre = map Some cs
           \<and> map_of (inst_connections pinst) pname = None
           \<and> write_instance B pinst self =
               (Inl (UnconnectedPort pname (inst_name pinst)),
                self\<lparr>indent := indent self + 1,
                     dest := dest self
                       @ [(indent self, rm_module_name target)]
                       @ override_block (indent self) (map fst (inst_parameters pinst)) vs
                       @ [(indent self, inst_name pinst), (indent self, ''( '')]
                       @ at_depth (indent self + 1)
                           (map (\<lambda>l. l @ '', '') (map2 binding pre cs))\<rparr>)"
proof -
  from first_missing [OF lacks] obtain pre pname post cs where
    order: "port_order (rm_module target) = pre @ pname # post"
    and pre: "map (map_of (inst_connections pinst)) pre = map Some cs"
    and missing: "map_of (inst_connections pinst) pname = None"
    by blast
  from write_instance_unconnected [OF res vals order pre missing] order pre missing
  show ?thesis by blast
qed

theorem unconnected_port_raises_witness:
  "resolve_reference sample_base sample_registered
       (inst_module (sample_inst\<lparr>inst_connections := [(''a'', Conn_literal ''0'')]\<rparr>)) =
     Inr \<lparr>rm_module = IsModule sample_leaf, rm_module_name = ''inv''\<rparr>
   \<and> map (\<lambda>(pname, p). get_param_value sample_base p)
         (inst_parameters (sample_inst\<lparr>inst_connections := [(''a'', Conn_literal ''0'')]\<rparr>)) =
       map Inr [''8'', ''s'']
   \<and> port_order (IsModule sample_leaf) = [''a'', ''y'']
   \<and> map_of (inst_connections (sample_inst\<lparr>inst_connections := [(''a'', Conn_literal ''0'')]\<rparr>))
         ''y'' = None
   \<and> write_instance sample_base
         (sample_inst\<lparr>inst_connections := [(''a'', Conn_literal ''0'')]\<rparr>) sample_registered =
       (Inl (UnconnectedPort ''y'' ''u1''),
        sample_registered\<lparr>indent := 1, dest :=
          [(0, ''inv''), (0, ''#( ''), (1, ''w=8 ''), (1, ''k=s ''), (0, '') ''), (0, ''u1''),
           (0, ''( ''), (1, ''.a(0), '')]\<rparr>)"
proof -
  let ?open = "sample_inst\<lparr>inst_connections := [(''a'', Conn_literal ''0'')]\<rparr>"
  let ?target = "\<lparr>rm_module = IsModule sample_leaf, rm_module_name = ''inv''\<rparr>"
  have res: "resolve_reference sample_base sample_registered (inst_module ?open) = Inr ?target"
    using sample_resolve by simp
  have vals: "map (\<lambda>(pname, p). get_param_value sample_base p) (inst_parameters ?open) =
      map Inr [''8'', ''s'']"
    using sample_values by simp
  have missing: "map_of (inst_connections ?open) ''y'' = None"
    by simp
  have lacks: "\<exists>p \<in> set (port_order (rm_module ?target)). map_of (inst_connections ?open) p = None"
    by (simp add: sample_port_order)
  from unconnected_port_raises [OF res vals lacks] res vals missing sample_open_text
    sample_port_order
  show ?thesis
    by simp
qed

text \<open>
  Claim C10. For every Instance that has one or more parameter overrides, whose target
  resolves and whose values are formatted without error, \<^verbatim>\<open>write_instance\<close> writes,
  after the name of the target and the opening line of the block, one line for each
  override, in the order of the mapping, then the closing line. Line \<open>k\<close> is the name of
  override \<open>k\<close>, an equals sign, its value and a blank: no line of the block, the last
  no more than the others, carries a comma after the value.
\<close>

theorem overrides_without_commas:
  assumes res: "resolve_reference B self (inst_module pinst) = Inr target"
    and vals: "map (\<lambda>(pname, p). get_param_value B p) (inst_parameters pinst) = map Inr vs"
    and some: "inst_parameters pinst \<noteq> []"
  shows "(\<exists>rest. emitted self (write_instance B pinst self) =
            [(indent self, rm_module_name target), (indent self, ''#( '')]
            @ at_depth (indent self + 1) (map2 override (map fst (inst_parameters pinst)) vs)
            @ [(indent self, '') '')] @ rest)
         \<and> length (map2 override (map fst (inst_parameters pinst)) vs)
             = length (inst_parameters pinst)
         \<and> (\<forall>k < length (inst_parameters pinst).
              map2 override (map fst (inst_parameters pinst)) vs ! k
                = fst (inst_parameters pinst ! k) @ ''='' @ vs ! k @ '' '')"
proof -
  have len: "length (inst_parameters pinst) = length vs"
    using vals by (metis length_map)
  with some have ne: "vs \<noteq> []" by auto
  define s1 where "s1 = self\<lparr>dest := dest self @ [(indent self, rm_module_name target)]
    @ override_block (indent self) (map fst (inst_parameters pinst)) vs\<rparr>"
  define K where "K = (\<lambda>s. and_then
      (write_instance_connections pinst (rm_module target) (writeln (inst_name pinst) s))
      (\<lambda>s. returns (writeln [] s)))"
  have run: "write_instance B pinst self = K s1"
    unfolding write_instance_def
    by (simp add: res Let_def write_instance_parameters_returns [OF vals] K_def s1_def
        writeln_def returns_def)
  have K: "\<And>d s. K (prepend d s) = shift d (K s)"
    by (simp add: K_def write_instance_connections_prepend and_then_shift returns_prepend)
  obtain r s' where out: "K s1 = (r, s')" by (cases "K s1")
  from outcome_extends [of K, OF K out] obtain rest where "dest s' = dest s1 @ rest" ..
  then have "dest s' = dest self @ ([(indent self, rm_module_name target), (indent self, ''#( '')]
      @ at_depth (indent self + 1) (map2 override (map fst (inst_parameters pinst)) vs)
      @ [(indent self, '') '')] @ rest)"
    using some ne len by (simp add: s1_def override_block_def block_def)
  then have "emitted self (write_instance B pinst self) =
      [(indent self, rm_module_name target), (indent self, ''#( '')]
      @ at_depth (indent self + 1) (map2 override (map fst (inst_parameters pinst)) vs)
      @ [(indent self, '') '')] @ rest"
    unfolding run out by (rule emitted_append)
  then show ?thesis
    using len by (auto simp: override_def)
qed

theorem overrides_without_commas_witness:
  "resolve_reference sample_base sample_registered (inst_module sample_inst) =
     Inr \<lparr>rm_module = IsModule sample_leaf, rm_module_name = ''inv''\<rparr>
   \<and> map (\<lambda>(pname, p). get_param_value sample_base p) (inst_parameters sample_inst) =
       map Inr [''8'', ''s'']
   \<and> inst_parameters sample_inst \<noteq> []
   \<and> (\<exists>rest. emitted sample_registered (write_instance sample_base sample_inst sample_registered) =
         [(0, ''inv''), (0, ''#( ''), (1, ''w=8 ''), (1, ''k=s ''), (0, '') '')] @ rest)"
proof -
  have some: "inst_parameters sample_inst \<noteq> []"
    by (simp add: sample_inst_def)
  from overrides_without_commas [OF sample_resolve sample_values some, THEN conjunct1]
  have "\<exists>rest. emitted sample_registered (write_instance sample_base sample_inst sample_registered) =
         [(0, ''inv''), (0, ''#( ''), (1, ''w=8 ''), (1, ''k=s ''), (0, '') '')] @ rest"
    by (simp add: at_depth_def override_def sample_registered_def fresh_def)
      (simp add: sample_inst_def)
  with sample_resolve sample_values some show ?thesis
    by blast
qed

section \<open>The separator law\<close>

text \<open>
  When the name of the module is new and every default parameter and every port has a
  declaration, the text written starts with the header and the two blocks, whatever the
  rest of the method does.
\<close>

lemma write_module_definition_blocks:
  assumes new: "get_module_name B m \<notin> module_names self"
    and dd: "map (\<lambda>(name, p). format_param_decl B name p) (mod_default_parameters m)
               = map Inr ddecls"
    and pd: "map format_port_decl (mod_ports m) = map Inr pdecls"
  shows "\<exists>rest. emitted self (write_module_definition B m self) =
           [(indent self, ''module '' @ get_module_name B m)]
           @ param_decl_block (indent self) ddecls
           @ port_decl_block (indent self) pdecls @ rest"
proof -
  define s2 where "s2 = self\<lparr>module_names := insert (get_module_name B m) (module_names self),
      pmodules := (pmodules self)(mod_name m \<mapsto> m),
      dest := dest self @ [(indent self, ''module '' @ get_module_name B m)]
        @ param_decl_block (indent self) ddecls @ port_decl_block (indent self) pdecls\<rparr>"
  have run: "write_module_definition B m self = write_module_body B m (get_module_name B m) s2"
    unfolding write_module_definition_def
    by (simp add: new Let_def write_module_parameters_returns [OF dd]
        write_module_ports_returns [OF pd] writeln_def returns_def s2_def)
  obtain r s' where out: "write_module_body B m (get_module_name B m) s2 = (r, s')"
    by (cases "write_module_body B m (get_module_name B m) s2")
  from outcome_extends [of "write_module_body B m (get_module_name B m)", OF _ out]
  obtain rest where "dest s' = dest s2 @ rest"
    by (auto simp: write_module_body_prepend)
  then have "dest s' = dest self @ ([(indent self, ''module '' @ get_module_name B m)]
      @ param_decl_block (indent self) ddecls @ port_decl_block (indent self) pdecls @ rest)"
    by (simp add: s2_def)
  then have "emitted self (write_module_definition B m self) =
      [(indent self, ''module '' @ get_module_name B m)]
      @ param_decl_block (indent self) ddecls @ port_decl_block (indent self) pdecls @ rest"
    unfolding run out by (rule emitted_append)
  then show ?thesis ..
qed

text \<open>
  Claim C3. For every Module whose name is new and whose default parameters and ports all
  have declarations, the text \<^verbatim>\<open>write_module_definition\<close> writes starts with the header
  line, the block of the parameter declarations and the block of the port declarations: a
  block of N entries, N at least 1, holds between its opening and closing lines exactly
  the N declarations, in declared order, separated. For every Instance whose target
  resolves, whose parameter values are formatted and whose connections cover the ports of
  the target, the connection block \<^verbatim>\<open>write_instance\<close> writes holds the bindings of the
  ports, separated, each followed by a blank. Separated entries are as many as the
  entries; each but the last is followed by a comma and the last by nothing.
\<close>

theorem separator_law:
  "(get_module_name B m \<notin> module_names self
      \<and> map (\<lambda>(name, p). format_param_decl B name p) (mod_default_parameters m)
          = map Inr ddecls
      \<and> map format_port_decl (mod_ports m) = map Inr pdecls \<longrightarrow>
      (\<exists>rest. emitted self (write_module_definition B m self) =
         [(indent self, ''module '' @ get_module_name B m)]
         @ block (indent self) ''#( '' '') '' ''// No parameters '' (separated ddecls)
         @ block (indent self) ''( '' ''); '' ''// No ports '' (separated pdecls) @ rest))
   \<and> (resolve_reference B st (inst_module pinst) = Inr target
      \<and> map (\<lambda>(pname, p). get_param_value B p) (inst_parameters pinst) = map Inr vs
      \<and> map (map_of (inst_connections pinst)) (port_order (rm_module target)) = map Some cs \<longrightarrow>
      emitted st (write_instance B pinst st) =
        [(indent st, rm_module_name target)]
        @ override_block (indent st) (map fst (inst_parameters pinst)) vs
        @ [(indent st, inst_name pinst)]
        @ block (indent st) ''( '' ''); '' ''// No ports ''
            (map (\<lambda>l. l @ '' '')
               (separated (map2 binding (port_order (rm_module target)) cs)))
        @ [(indent st, [])])
   \<and> length (separated entries) = length entries
   \<and> (\<forall>k < length entries.
        separated entries ! k = entries ! k @ (if Suc k < length entries then '','' else []))"
proof (intro conjI impI allI)
  assume "get_module_name B m \<notin> module_names self
      \<and> map (\<lambda>(name, p). format_param_decl B name p) (mod_default_parameters m)
          = map Inr ddecls
      \<and> map format_port_decl (mod_ports m) = map Inr pdecls"
  then have "\<exists>rest. emitted self (write_module_definition B m self) =
           [(indent self, ''module '' @ get_module_name B m)]
           @ param_decl_block (indent self) ddecls
           @ port_decl_block (indent self) pdecls @ rest"
    by (intro write_module_definition_blocks) simp_all
  then show "\<exists>rest. emitted self (write_module_definition B m self) =
         [(indent self, ''module '' @ get_module_name B m)]
         @ block (indent self) ''#( '' '') '' ''// No parameters '' (separated ddecls)
         @ block (indent self) ''( '' ''); '' ''// No ports '' (separated pdecls) @ rest"
    by (simp add: param_decl_block_def port_decl_block_def)
next
  assume "resolve_reference B st (inst_module pinst) = Inr target
      \<and> map (\<lambda>(pname, p). get_param_value B p) (inst_parameters pinst) = map Inr vs
      \<and> map (map_of (inst_connections pinst)) (port_order (rm_module target)) = map Some cs"
  then have res: "resolve_reference B st (inst_module pinst) = Inr target"
    and vals: "map (\<lambda>(pname, p). get_param_value B p) (inst_parameters pinst) = map Inr vs"
    and conns: "map (map_of (inst_connections pinst)) (port_order (rm_module target)) = map Some cs"
    by simp_all
  show "emitted st (write_instance B pinst st) =
        [(indent st, rm_module_name target)]
        @ override_block (indent st) (map fst (inst_parameters pinst)) vs
        @ [(indent st, inst_name pinst)]
        @ block (indent st) ''( '' ''); '' ''// No ports ''
            (map (\<lambda>l. l @ '' '')
               (separated (map2 binding (port_order (rm_module target)) cs)))
        @ [(indent st, [])]"
    by (simp add: write_instance_returns [OF res vals conns] returns_def emitted_def
        connection_block_def)
next
  show "length (separated entries) = length entries" by simp
next
  fix k assume "k < length entries"
  then show "separated entries ! k = entries ! k @ (if Suc k < length entries then '','' else [])"
    by (rule separated_nth)
qed

theorem separator_law_witness:
  "get_module_name sample_base sample_leaf \<notin> module_names fresh
   \<and> map (\<lambda>(name, p). format_param_decl sample_base name p) (mod_default_parameters sample_leaf)
       = map Inr [''parameter w = 4'', ''parameter tag'']
   \<and> map format_port_decl (mod_ports sample_leaf)
       = map Inr [''input wire a'', ''output wire [3:0] y'']
   \<and> (\<exists>rest. emitted fresh (write_module_definition sample_base sample_leaf fresh) =
         [(0, ''module inv''),
          (0, ''#( ''), (1, ''parameter w = 4,''), (1, ''parameter tag''), (0, '') ''),
          (0, ''( ''), (1, ''input wire a,''), (1, ''output wire [3:0] y''), (0, ''); '')]
         @ rest)
   \<and> resolve_reference sample_base sample_registered (inst_module sample_inst) =
       Inr \<lparr>rm_module = IsModule sample_leaf, rm_module_name = ''inv''\<rparr>
   \<and> map (\<lambda>(pname, p). get_param_value sample_base p) (inst_parameters sample_inst) =
       map Inr [''8'', ''s'']
   \<and> map (map_of (inst_connections sample_inst)) (port_order (IsModule sample_leaf)) =
       map Some [Conn_slice \<lparr>slice_signal = ''x'', slice_top = 0, slice_bot = 0\<rparr>,
                 Conn_sig \<lparr>sig_name = ''z'', sig_width = 4\<rparr>]
   \<and> emitted sample_registered (write_instance sample_base sample_inst sample_registered) =
       [(0, ''inv''), (0, ''#( ''), (1, ''w=8 ''), (1, ''k=s ''), (0, '') ''), (0, ''u1''),
        (0, ''( ''), (1, ''.a(x[0]), ''), (1, ''.y(z) ''), (0, ''); ''), (0, [])]
   \<and> length (separated [''p'', ''q'', ''r'']) = 3
   \<and> separated [''p'', ''q'', ''r''] ! 0 = ''p,''
   \<and> separated [''p'', ''q'', ''r''] ! 1 = ''q,''
   \<and> separated [''p'', ''q'', ''r''] ! 2 = ''r''"
proof -
  have new: "get_module_name sample_base sample_leaf \<notin> module_names fresh"
    by (simp add: fresh_def)
  have conns: "map (map_of (inst_connections sample_inst))
      (port_order (rm_module \<lparr>rm_module = IsModule sample_leaf, rm_module_name = ''inv''\<rparr>)) =
     map Some [Conn_slice \<lparr>slice_signal = ''x'', slice_top = 0, slice_bot = 0\<rparr>,
               Conn_sig \<lparr>sig_name = ''z'', sig_width = 4\<rparr>]"
    using sample_connections by simp
  note law = separator_law [of sample_base sample_leaf fresh
      "[''parameter w = 4'', ''parameter tag'']" "[''input wire a'', ''output wire [3:0] y'']"
      sample_registered sample_inst "\<lparr>rm_module = IsModule sample_leaf, rm_module_name = ''inv''\<rparr>"
      "[''8'', ''s'']"
      "[Conn_slice \<lparr>slice_signal = ''x'', slice_top = 0, slice_bot = 0\<rparr>,
        Conn_sig \<lparr>sig_name = ''z'', sig_width = 4\<rparr>]"
      "[''p'', ''q'', ''r'']"]
  from law new sample_param_decls sample_port_decls
  have module_text: "\<exists>rest. emitted fresh (write_module_definition sample_base sample_leaf fresh) =
         [(0, ''module inv''),
          (0, ''#( ''), (1, ''parameter w = 4,''), (1, ''parameter tag''), (0, '') ''),
          (0, ''( ''), (1, ''input wire a,''), (1, ''output wire [3:0] y''), (0, ''); '')]
         @ rest"
    by (simp add: separated_two block_def at_depth_def fresh_def sample_base_simps)
      (simp add: sample_leaf_def)
  from law sample_resolve sample_values conns
  have inst_text: "emitted sample_registered
        (write_instance sample_base sample_inst sample_registered) =
       [(0, ''inv''), (0, ''#( ''), (1, ''w=8 ''), (1, ''k=s ''), (0, '') ''), (0, ''u1''),
        (0, ''( ''), (1, ''.a(x[0]), ''), (1, ''.y(z) ''), (0, ''); ''), (0, [])]"
    by (simp add: sample_port_order separated_two sample_bindings override_block_def
        block_def at_depth_def override_def)
      (simp add: sample_registered_def fresh_def sample_inst_def)
  from law have sep: "length (separated [''p'', ''q'', ''r'']) = 3"
    "separated [''p'', ''q'', ''r''] ! 0 = ''p,''"
    "separated [''p'', ''q'', ''r''] ! 1 = ''q,''"
    "separated [''p'', ''q'', ''r''] ! 2 = ''r''"
    by simp_all
  from new sample_param_decls sample_port_decls module_text sample_resolve sample_values
    sample_connections inst_text sep
  show ?thesis by blast
qed

section \<open>Determinism\<close>




end
